theory Spec2Isabelle
  imports Main "HOL-Library.Word" "HOL-Library.Multiset"
    "HOL-Library.Char_ord" "HOL-Library.List_Lexorder" "HOL-Library.Product_Lexorder"
begin

section \<open>Strings, bytes and hexadecimal text\<close>

text \<open>
  Python strings are modelled as \<^typ>\<open>string\<close>; the characters are ASCII, so one
  character is one code point and one byte of the UTF-8 encoding. Bytes are
  \<^typ>\<open>8 word\<close>.
\<close>

type_synonym byte = "8 word"

text \<open>
  \<^verbatim>\<open>str.strip()\<close> removes the white space at both ends. On ASCII the white space
  of Python is the code points 9 to 13, 28 to 31 and 32.
\<close>

definition is_space :: "char \<Rightarrow> bool" where
  "is_space c = (let n = (of_char c :: nat) in (9 \<le> n \<and> n \<le> 13) \<or> (28 \<le> n \<and> n \<le> 32))"

definition strip :: "string \<Rightarrow> string" where
  "strip s = rev (dropWhile is_space (rev (dropWhile is_space s)))"

text \<open>\<^verbatim>\<open>str.upper()\<close> on ASCII: the letters a to z move to A to Z.\<close>

definition upper_char :: "char \<Rightarrow> char" where
  "upper_char c =
     (case map_of (zip ''abcdefghijklmnopqrstuvwxyz'' ''ABCDEFGHIJKLMNOPQRSTUVWXYZ'') c of
        None \<Rightarrow> c | Some u \<Rightarrow> u)"

definition upper :: "string \<Rightarrow> string" where
  "upper s = map upper_char s"

text \<open>\<^verbatim>\<open>str.encode("utf-8")\<close> on ASCII text: one byte for each character.\<close>

definition encode_utf8 :: "string \<Rightarrow> byte list" where
  "encode_utf8 s = map (\<lambda>c. of_nat (of_char c)) s"

text \<open>\<^verbatim>\<open>bytes.hex()\<close>: two lower-case hexadecimal digits for each byte.\<close>

definition hex_digit :: "nat \<Rightarrow> char" where
  "hex_digit n = ''0123456789abcdef'' ! n"

definition hex_byte :: "byte \<Rightarrow> string" where
  "hex_byte b = [hex_digit (unat b div 16), hex_digit (unat b mod 16)]"

definition hex :: "byte list \<Rightarrow> string" where
  "hex bs = concat (map hex_byte bs)"

section \<open>Credential hashing\<close>

text \<open>
  \<^verbatim>\<open>hash_pw\<close> (app.py, 108 to 114). \<^verbatim>\<open>hashlib.sha256(h).digest()\<close> is the
  parameter \<open>sha256\<close>: a function from bytes to bytes of the library.
\<close>

definition hash_pw :: "(byte list \<Rightarrow> byte list) \<Rightarrow> string \<Rightarrow> string \<Rightarrow> string" where
  "hash_pw sha256 password salt = hex ((sha256 ^^ 150000) (encode_utf8 (salt @ password)))"


section \<open>The store\<close>

text \<open>
  The tables of \<^verbatim>\<open>init_db\<close> (app.py, 35 to 86), one record for each row, and the
  snapshot directory. A table is the list of its rows in insertion order; the
  constraints of the schema are checked by the insert functions below.
\<close>

type_synonym frame = "byte list"

record admin_row =
  adm_id :: nat
  adm_username :: string
  adm_pass_hash :: string
  adm_salt :: string

record student =
  s_id :: nat
  s_roll_no :: string
  s_full_name :: string
  s_class_name :: string
  s_section :: string
  s_pin_hash :: string
  s_salt :: string
  s_created_at :: string

record day_session_row =
  ds_day :: string
  ds_session_code :: string
  ds_created_at :: string

record attendance_row =
  a_id :: nat
  a_student_id :: nat
  a_day :: string
  a_status :: string
  a_checked_in_at :: string
  a_snapshot_path :: "string option"
  a_ip :: "string option"
  a_user_agent :: string

record audit_row =
  al_id :: nat
  al_ts :: string
  al_event :: string
  al_detail :: string

record state =
  admin :: "admin_row list"
  students :: "student list"
  day_session :: "day_session_row list"
  attendance :: "attendance_row list"
  audit_log :: "audit_row list"
  snap_dir :: "string \<rightharpoonup> frame"

definition empty_state :: state where
  "empty_state = \<lparr>admin = [], students = [], day_session = [], attendance = [],
     audit_log = [], snap_dir = Map.empty\<rparr>"

text \<open>\<^verbatim>\<open>sqlite3.IntegrityError\<close>, raised by an insert that violates a constraint.\<close>

datatype error = IntegrityError

text \<open>The row id an integer primary key receives: one more than the largest so far.\<close>

definition next_id :: "nat list \<Rightarrow> nat" where
  "next_id ids = Suc (fold max ids 0)"

section \<open>What a request reads from outside the store\<close>

text \<open>
  One reading of the clock in the three formats the code prints it
  (\<^verbatim>\<open>today()\<close>, \<^verbatim>\<open>now()\<close> and the time stamp of a snapshot's file name), the
  random bytes \<^verbatim>\<open>secrets\<close> draws, and the camera: whether OpenCV was imported,
  whether the device opened, and the frame of the sixth read if one was delivered.
\<close>

record env =
  today :: string
  now :: string
  snap_ts :: string
  rnd :: "nat \<Rightarrow> byte"
  opencv_ok :: bool
  cam_opened :: bool
  cam_frame :: "frame option"

text \<open>\<^verbatim>\<open>secrets.token_hex(n)\<close>: the hexadecimal text of \<open>n\<close> random bytes.\<close>

definition token_hex :: "env \<Rightarrow> nat \<Rightarrow> string" where
  "token_hex e n = hex (map (rnd e) [0..<n])"

datatype http_method = GET | POST

datatype route = Home | Kiosk | Admin_login | Admin_logout | Admin_dashboard
  | Admin_add_student | Admin_reports | Admin_change_password | Snapshot string

record request =
  route :: route
  rq_method :: http_method
  form :: "string \<rightharpoonup> string"
  args :: "string \<rightharpoonup> string"
  remote_addr :: "string option"
  user_agent :: "string option"

text \<open>\<^verbatim>\<open>request.form.get(k, "")\<close>.\<close>

definition form_get :: "request \<Rightarrow> string \<Rightarrow> string" where
  "form_get rq k = (case form rq k of None \<Rightarrow> [] | Some v \<Rightarrow> v)"

text \<open>
  The client session: the \<^verbatim>\<open>admin\<close> flag and the \<^verbatim>\<open>rl\<close> entry of the rate
  limiter, absent until the first check-in attempt.
\<close>

record rate_limit =
  rl_count :: int
  rl_ts :: string

record session =
  sess_admin :: bool
  sess_rl :: "rate_limit option"

definition new_session :: session where
  "new_session = \<lparr>sess_admin = False, sess_rl = None\<rparr>"

text \<open>
  The answers. A rejection is a redirect that carries the flashed message; the
  message texts of the source are the constructors of \<open>flash_msg\<close>.
\<close>

datatype flash_msg = Fill_all_fields | Wrong_session_code | Unknown_roll_number | Wrong_PIN
  | Already_checked_in | Invalid_credentials | All_fields_required | Student_added
  | Roll_number_already_exists | New_passwords_do_not_match | Old_password_wrong
  | Password_updated

record report_row =
  r_roll_no :: string
  r_full_name :: string
  r_class_name :: string
  r_section :: string
  r_status :: string
  r_checked_in_at :: "string option"
  r_snapshot_path :: "string option"

datatype response =
    Redirect route "flash_msg option"
  | Abort nat
  | Server_error error
  | Kiosk_page string
  | Checked_in_page string string string string
  | Login_page
  | Dashboard_page string nat nat
  | Reports_page string int int "report_row list"
  | Change_password_page
  | Snapshot_file "frame option"

section \<open>Audit log\<close>

text \<open>\<^verbatim>\<open>log\<close> (app.py, 116 to 120): one row appended, the detail cut at 1000 characters.\<close>

definition log :: "env \<Rightarrow> string \<Rightarrow> string \<Rightarrow> state \<Rightarrow> state" where
  "log e event detail s =
     s\<lparr>audit_log := audit_log s @
       [\<lparr>al_id = next_id (map al_id (audit_log s)), al_ts = now e, al_event = event,
         al_detail = take 1000 detail\<rparr>]\<rparr>"

section \<open>Rate limiter\<close>

text \<open>\<^verbatim>\<open>rate_limit_key\<close> (app.py, 130 to 134): the entry, created at count 0 when absent.\<close>

definition rate_limit_key :: "env \<Rightarrow> session \<Rightarrow> rate_limit \<times> session" where
  "rate_limit_key e ss =
     (case sess_rl ss of
        None \<Rightarrow> (let rl = \<lparr>rl_count = 0, rl_ts = now e\<rparr> in (rl, ss\<lparr>sess_rl := Some rl\<rparr>))
      | Some rl \<Rightarrow> (rl, ss))"

text \<open>
  \<^verbatim>\<open>bump_rate_limit\<close> (app.py, 136 to 141). The first component is the status of
  \<^verbatim>\<open>abort\<close> when it is raised; the session is stored before the test in both cases.
\<close>

definition bump_rate_limit :: "env \<Rightarrow> int \<Rightarrow> session \<Rightarrow> nat option \<times> session" where
  "bump_rate_limit e max_attempts ss =
     (let (rl, ss1) = rate_limit_key e ss;
          rl' = rl\<lparr>rl_count := rl_count rl + 1\<rparr>;
          ss2 = ss1\<lparr>sess_rl := Some rl'\<rparr>
      in if rl_count rl' > max_attempts then (Some 429, ss2) else (None, ss2))"

section \<open>Session code\<close>

text \<open>The insert into \<^verbatim>\<open>day_session\<close>, whose primary key is the day.\<close>

definition insert_day_session :: "day_session_row \<Rightarrow> state \<Rightarrow> error + state" where
  "insert_day_session r s =
     (if ds_day r \<in> set (map ds_day (day_session s)) then Inl IntegrityError
      else Inr (s\<lparr>day_session := day_session s @ [r]\<rparr>))"

definition select_session_code :: "string \<Rightarrow> state \<Rightarrow> string option" where
  "select_session_code d s = map_option ds_session_code (find (\<lambda>r. ds_day r = d) (day_session s))"

text \<open>
  \<^verbatim>\<open>get_or_create_session_code\<close> (app.py, 146 to 158). The SELECT and the INSERT
  are two statements; \<open>other\<close> is what other connections commit between them (the
  identity when requests are served one at a time). The code has no handler for the
  error of the insert: it leaves the function as an exception, the first component
  \<open>Inl\<close>, and the call's own insert is rolled back.
\<close>

definition get_or_create_session_code ::
  "(state \<Rightarrow> state) \<Rightarrow> env \<Rightarrow> state \<Rightarrow> (error + string) \<times> state" where
  "get_or_create_session_code other e s =
     (let d = today e in
      case select_session_code d s of
        Some code \<Rightarrow> (Inr code, s)
      | None \<Rightarrow>
          (let code = upper (token_hex e 3) in
           case insert_day_session
                  \<lparr>ds_day = d, ds_session_code = code, ds_created_at = now e\<rparr> (other s) of
             Inl err \<Rightarrow> (Inl err, other s)
           | Inr s1 \<Rightarrow> (Inr code, log e ''NEW_DAY_SESSION'' (''day='' @ d @ '', code='' @ code) s1)))"

section \<open>Webcam snapshot\<close>

text \<open>
  \<^verbatim>\<open>capture_snapshot\<close> (app.py, 163 to 186): the file name when a frame was
  written to the snapshot directory, \<open>None\<close> otherwise.
\<close>

definition capture_snapshot :: "env \<Rightarrow> string \<Rightarrow> state \<Rightarrow> string option \<times> state" where
  "capture_snapshot e roll_no s =
     (if \<not> opencv_ok e then (None, s)
      else if \<not> cam_opened e then (None, s)
      else case cam_frame e of
        None \<Rightarrow> (None, s)
      | Some fr \<Rightarrow>
          (let filename = today e @ ''_'' @ roll_no @ ''_'' @ snap_ts e @ ''.jpg''
           in (Some filename, s\<lparr>snap_dir := (snap_dir s)(filename \<mapsto> fr)\<rparr>)))"

section \<open>Check-in\<close>

text \<open>
  The insert into \<^verbatim>\<open>attendance\<close> (app.py, 299 to 307) under the constraints of
  the table: \<^verbatim>\<open>CHECK(status IN ('P'))\<close> and \<^verbatim>\<open>UNIQUE(student_id, day)\<close>.
\<close>

definition insert_attendance ::
  "nat \<Rightarrow> string \<Rightarrow> string \<Rightarrow> string \<Rightarrow> string option \<Rightarrow> string option \<Rightarrow> string \<Rightarrow> state
     \<Rightarrow> error + state" where
  "insert_attendance sid d st ts snap ip ua s =
     (if st \<noteq> ''P'' then Inl IntegrityError
      else if (sid, d) \<in> set (map (\<lambda>a. (a_student_id a, a_day a)) (attendance s))
        then Inl IntegrityError
      else Inr (s\<lparr>attendance := attendance s @
        [\<lparr>a_id = next_id (map a_id (attendance s)), a_student_id = sid, a_day = d, a_status = st,
          a_checked_in_at = ts, a_snapshot_path = snap, a_ip = ip, a_user_agent = ua\<rparr>]\<rparr>))"

text \<open>\<^verbatim>\<open>SELECT * FROM students WHERE roll_no=?\<close> with \<^verbatim>\<open>fetchone\<close>.\<close>

definition select_student :: "string \<Rightarrow> state \<Rightarrow> student option" where
  "select_student roll_no s = find (\<lambda>st. s_roll_no st = roll_no) (students s)"

text \<open>
  The end of the POST branch of \<^verbatim>\<open>kiosk\<close> (app.py, 293 to 323), reached with the
  student's row once the PIN has matched: snapshot, then the insert, whose
  \<^verbatim>\<open>IntegrityError\<close> is caught.
\<close>

definition record_attendance ::
  "env \<Rightarrow> request \<Rightarrow> string \<Rightarrow> student \<Rightarrow> state \<Rightarrow> response \<times> state" where
  "record_attendance e rq roll_no stu s =
     (let (snap_file, s1) = capture_snapshot e roll_no s in
      case insert_attendance (s_id stu) (today e) ''P'' (now e) snap_file (remote_addr rq)
             (take 300 (case user_agent rq of None \<Rightarrow> [] | Some u \<Rightarrow> u)) s1 of
        Inr s2 \<Rightarrow>
          (Checked_in_page (s_full_name stu) (s_roll_no stu) (today e) (now e),
           log e ''CHECKIN_OK''
             (''roll='' @ roll_no @ '', snap='' @
                (case snap_file of None \<Rightarrow> ''none'' | Some f \<Rightarrow> if f = [] then ''none'' else f)) s2)
      | Inl IntegrityError \<Rightarrow>
          (Redirect Kiosk (Some Already_checked_in),
           log e ''CHECKIN_DUP'' (''roll='' @ roll_no @ '' already checked today'') s1))"

text \<open>
  The validation of the POST branch (app.py, 262 to 291), after the rate limiter, with
  \<open>code\<close> the session code of the day.
\<close>

definition check_in ::
  "(byte list \<Rightarrow> byte list) \<Rightarrow> env \<Rightarrow> request \<Rightarrow> string \<Rightarrow> state \<Rightarrow> response \<times> state" where
  "check_in sha256 e rq code s =
     (let roll_no = strip (form_get rq ''roll_no'');
          pin = strip (form_get rq ''pin'');
          session_code = upper (strip (form_get rq ''session_code''))
      in if roll_no = [] \<or> pin = [] \<or> session_code = [] then
           (Redirect Kiosk (Some Fill_all_fields), s)
         else if session_code \<noteq> code then
           (Redirect Kiosk (Some Wrong_session_code),
            log e ''CHECKIN_FAIL'' (''roll='' @ roll_no @ '', reason=bad_session_code'') s)
         else case select_student roll_no s of
           None \<Rightarrow>
             (Redirect Kiosk (Some Unknown_roll_number),
              log e ''CHECKIN_FAIL'' (''roll='' @ roll_no @ '', reason=unknown_roll'') s)
         | Some stu \<Rightarrow>
             if hash_pw sha256 pin (s_salt stu) \<noteq> s_pin_hash stu then
               (Redirect Kiosk (Some Wrong_PIN),
                log e ''CHECKIN_FAIL'' (''roll='' @ roll_no @ '', reason=bad_pin'') s)
             else record_attendance e rq roll_no stu s)"

text \<open>
  \<^verbatim>\<open>kiosk\<close> (app.py, 254 to 350). The session code is fetched first, for GET and
  POST alike; on POST the rate limiter runs before the form is read.
\<close>

definition kiosk ::
  "(byte list \<Rightarrow> byte list) \<Rightarrow> env \<Rightarrow> request \<Rightarrow> session \<Rightarrow> state
     \<Rightarrow> response \<times> session \<times> state" where
  "kiosk sha256 e rq ss s =
     (case get_or_create_session_code (\<lambda>x. x) e s of
        (Inl err, s0) \<Rightarrow> (Server_error err, ss, s0)
      | (Inr code, s0) \<Rightarrow>
          if rq_method rq = POST then
            (case bump_rate_limit e 20 ss of
               (Some status, ss1) \<Rightarrow> (Abort status, ss1, s0)
             | (None, ss1) \<Rightarrow>
                 (let (resp, s1) = check_in sha256 e rq code s0 in (resp, ss1, s1)))
          else (Kiosk_page code, ss, s0))"

section \<open>Reports\<close>

text \<open>
  \<^verbatim>\<open>CAST(s.roll_no AS INT)\<close> as SQLite documents it: leading white space is
  skipped, the longest prefix that reads as a decimal integer is taken (0 when there is
  none), and a value outside the 64-bit range becomes the nearest bound.
\<close>

definition is_sql_space :: "char \<Rightarrow> bool" where
  "is_sql_space c = (let n = (of_char c :: nat) in (9 \<le> n \<and> n \<le> 13) \<or> n = 32)"

definition is_digit :: "char \<Rightarrow> bool" where
  "is_digit c = (let n = (of_char c :: nat) in 48 \<le> n \<and> n \<le> 57)"

definition digits_val :: "string \<Rightarrow> int" where
  "digits_val ds = fold (\<lambda>c a. 10 * a + (int (of_char c) - 48)) ds 0"

definition cast_int :: "string \<Rightarrow> int" where
  "cast_int t =
     (let u = dropWhile is_sql_space t;
          neg = (case u of [] \<Rightarrow> False | c # _ \<Rightarrow> c = CHR ''-'');
          v = (case u of [] \<Rightarrow> [] | c # w \<Rightarrow> if c = CHR ''-'' \<or> c = CHR ''+'' then w else u);
          n = digits_val (takeWhile is_digit v)
      in if neg then max (- (2 ^ 63)) (- n) else min (2 ^ 63 - 1) n)"

text \<open>
  The query of \<^verbatim>\<open>admin_reports\<close> (app.py, 523 to 531): the left join of the
  students with the attendance rows of the day, one row for each match and one row of
  nulls for a student without a match, ordered by
  \<^verbatim>\<open>class_name, section, CAST(roll_no AS INT), roll_no\<close>. Text compares byte by
  byte.
\<close>

definition joined_row :: "student \<Rightarrow> attendance_row option \<Rightarrow> report_row" where
  "joined_row st m =
     \<lparr>r_roll_no = s_roll_no st, r_full_name = s_full_name st, r_class_name = s_class_name st,
      r_section = s_section st,
      r_status = (case m of None \<Rightarrow> ''A'' | Some _ \<Rightarrow> ''P''),
      r_checked_in_at = map_option a_checked_in_at m,
      r_snapshot_path = Option.bind m a_snapshot_path\<rparr>"

definition left_join :: "string \<Rightarrow> state \<Rightarrow> report_row list" where
  "left_join d s =
     concat (map (\<lambda>st.
       case filter (\<lambda>a. a_student_id a = s_id st \<and> a_day a = d) (attendance s) of
         [] \<Rightarrow> [joined_row st None]
       | ms \<Rightarrow> map (\<lambda>a. joined_row st (Some a)) ms) (students s))"

definition order_key :: "report_row \<Rightarrow> string \<times> string \<times> int \<times> string" where
  "order_key r = (r_class_name r, r_section r, cast_int (r_roll_no r), r_roll_no r)"

definition report_query :: "string \<Rightarrow> state \<Rightarrow> report_row list" where
  "report_query d s = sort_key order_key (left_join d s)"

text \<open>The loop that counts the rows (app.py, 534 to 540).\<close>

definition count_rows :: "report_row list \<Rightarrow> int \<times> int" where
  "count_rows rows =
     fold (\<lambda>x (present, absent).
       if r_status x = ''P'' then (present + 1, absent) else (present, absent + 1)) rows (0, 0)"

text \<open>\<^verbatim>\<open>admin_reports\<close> (app.py, 514 to 565).\<close>

definition admin_reports :: "env \<Rightarrow> request \<Rightarrow> session \<Rightarrow> state \<Rightarrow> response \<times> session \<times> state" where
  "admin_reports e rq ss s =
     (if \<not> sess_admin ss then (Redirect Admin_login None, ss, s)
      else
        (let d = strip (case args rq ''day'' of None \<Rightarrow> today e | Some v \<Rightarrow> v);
             rows = report_query d s;
             (present, absent) = count_rows rows
         in (Reports_page d present absent rows, ss, s)))"

section \<open>Administration\<close>

text \<open>
  \<^verbatim>\<open>init_db\<close> (app.py, 35 to 100): the tables exist in every \<open>state\<close>; the
  default administrator is created when the table is empty.
\<close>

definition init_db :: "(byte list \<Rightarrow> byte list) \<Rightarrow> env \<Rightarrow> state \<Rightarrow> state" where
  "init_db sha256 e s =
     (if length (admin s) = 0 then
        (let salt = token_hex e 16;
             pass_hash = hash_pw sha256 ''admin123'' salt
         in s\<lparr>admin := admin s @
                 [\<lparr>adm_id = next_id (map adm_id (admin s)), adm_username = ''admin'',
                   adm_pass_hash = pass_hash, adm_salt = salt\<rparr>],
               audit_log := audit_log s @
                 [\<lparr>al_id = next_id (map al_id (audit_log s)), al_ts = now e,
                   al_event = ''INIT_ADMIN'',
                   al_detail = ''Default admin created (admin/admin123). Change ASAP.''\<rparr>]\<rparr>)
      else s)"

text \<open>\<^verbatim>\<open>admin_login\<close> (app.py, 352 to 385).\<close>

definition admin_login ::
  "(byte list \<Rightarrow> byte list) \<Rightarrow> env \<Rightarrow> request \<Rightarrow> session \<Rightarrow> state
     \<Rightarrow> response \<times> session \<times> state" where
  "admin_login sha256 e rq ss s =
     (if rq_method rq = POST then
        (let user = strip (form_get rq ''username''); pw = strip (form_get rq ''password'') in
         case find (\<lambda>r. adm_username r = user) (admin s) of
           None \<Rightarrow> (Redirect Admin_login (Some Invalid_credentials), ss, s)
         | Some row \<Rightarrow>
             if hash_pw sha256 pw (adm_salt row) \<noteq> adm_pass_hash row then
               (Redirect Admin_login (Some Invalid_credentials), ss, s)
             else (Redirect Admin_dashboard None, ss\<lparr>sess_admin := True\<rparr>,
                   log e ''ADMIN_LOGIN'' user s))
      else (Login_page, ss, s))"

text \<open>\<^verbatim>\<open>admin_logout\<close> (app.py, 387 to 390): \<^verbatim>\<open>session.clear()\<close>.\<close>

definition admin_logout :: "session \<Rightarrow> state \<Rightarrow> response \<times> session \<times> state" where
  "admin_logout ss s = (Redirect Admin_login None, \<lparr>sess_admin = False, sess_rl = None\<rparr>, s)"

text \<open>
  \<^verbatim>\<open>admin_dashboard\<close> (app.py, 392 to 480); of the page, the session code and the
  two counts are kept.
\<close>

definition admin_dashboard :: "env \<Rightarrow> session \<Rightarrow> state \<Rightarrow> response \<times> session \<times> state" where
  "admin_dashboard e ss s =
     (if \<not> sess_admin ss then (Redirect Admin_login None, ss, s)
      else case get_or_create_session_code (\<lambda>x. x) e s of
        (Inl err, s0) \<Rightarrow> (Server_error err, ss, s0)
      | (Inr code, s0) \<Rightarrow>
          (Dashboard_page code (length (students s0))
             (length (filter (\<lambda>a. a_day a = today e) (attendance s0))), ss, s0))"

text \<open>The insert into \<^verbatim>\<open>students\<close>, whose roll number is unique.\<close>

definition insert_student ::
  "string \<Rightarrow> string \<Rightarrow> string \<Rightarrow> string \<Rightarrow> string \<Rightarrow> string \<Rightarrow> string \<Rightarrow> state \<Rightarrow> error + state" where
  "insert_student roll name cls sec pin_hash salt ts s =
     (if roll \<in> set (map s_roll_no (students s)) then Inl IntegrityError
      else Inr (s\<lparr>students := students s @
        [\<lparr>s_id = next_id (map s_id (students s)), s_roll_no = roll, s_full_name = name,
          s_class_name = cls, s_section = sec, s_pin_hash = pin_hash, s_salt = salt,
          s_created_at = ts\<rparr>]\<rparr>))"

text \<open>\<^verbatim>\<open>admin_add_student\<close> (app.py, 482 to 512).\<close>

definition admin_add_student ::
  "(byte list \<Rightarrow> byte list) \<Rightarrow> env \<Rightarrow> request \<Rightarrow> session \<Rightarrow> state
     \<Rightarrow> response \<times> session \<times> state" where
  "admin_add_student sha256 e rq ss s =
     (if \<not> sess_admin ss then (Redirect Admin_login None, ss, s)
      else
        (let roll = strip (form_get rq ''roll_no'');
             name = strip (form_get rq ''full_name'');
             cls = strip (form_get rq ''class_name'');
             sec = strip (form_get rq ''section'');
             pin = strip (form_get rq ''pin'')
         in if roll = [] \<or> name = [] \<or> cls = [] \<or> sec = [] \<or> pin = [] then
              (Redirect Admin_dashboard (Some All_fields_required), ss, s)
            else
              (let salt = token_hex e 16; pin_hash = hash_pw sha256 pin salt in
               case insert_student roll name cls sec pin_hash salt (now e) s of
                 Inr s1 \<Rightarrow>
                   (Redirect Admin_dashboard (Some Student_added), ss,
                    log e ''ADD_STUDENT''
                      (''roll='' @ roll @ '', name='' @ name @ '', class='' @ cls @ ''-'' @ sec) s1)
               | Inl IntegrityError \<Rightarrow>
                   (Redirect Admin_dashboard (Some Roll_number_already_exists), ss, s))))"

text \<open>\<^verbatim>\<open>admin_change_password\<close> (app.py, 567 to 609).\<close>

definition admin_change_password ::
  "(byte list \<Rightarrow> byte list) \<Rightarrow> env \<Rightarrow> request \<Rightarrow> session \<Rightarrow> state
     \<Rightarrow> response \<times> session \<times> state" where
  "admin_change_password sha256 e rq ss s =
     (if \<not> sess_admin ss then (Redirect Admin_login None, ss, s)
      else if rq_method rq = POST then
        (let old = form_get rq ''old''; new = form_get rq ''new''; new2 = form_get rq ''new2'' in
         if new = [] \<or> new \<noteq> new2 then
           (Redirect Admin_change_password (Some New_passwords_do_not_match), ss, s)
         else case find (\<lambda>r. adm_username r = ''admin'') (admin s) of
           None \<Rightarrow> (Redirect Admin_change_password (Some Old_password_wrong), ss, s)
         | Some row \<Rightarrow>
             if hash_pw sha256 old (adm_salt row) \<noteq> adm_pass_hash row then
               (Redirect Admin_change_password (Some Old_password_wrong), ss, s)
             else
               (let salt = token_hex e 16; ph = hash_pw sha256 new salt in
                (Redirect Admin_dashboard (Some Password_updated), ss,
                 log e ''ADMIN_PW_CHANGE'' ''admin password changed''
                   (s\<lparr>admin := map (\<lambda>r. if adm_username r = ''admin''
                        then r\<lparr>adm_pass_hash := ph, adm_salt := salt\<rparr> else r) (admin s)\<rparr>))))
      else (Change_password_page, ss, s))"

text \<open>\<^verbatim>\<open>snapshot\<close> (app.py, 611 to 616).\<close>

definition snapshot :: "string \<Rightarrow> session \<Rightarrow> state \<Rightarrow> response \<times> session \<times> state" where
  "snapshot filename ss s =
     (if \<not> sess_admin ss then (Redirect Admin_login None, ss, s)
      else (Snapshot_file (snap_dir s filename), ss, s))"

text \<open>
  The routes of the application with the methods each accepts; another method is
  answered 405 before the view runs.
\<close>

definition handle ::
  "(byte list \<Rightarrow> byte list) \<Rightarrow> env \<Rightarrow> request \<Rightarrow> session \<Rightarrow> state
     \<Rightarrow> response \<times> session \<times> state" where
  "handle sha256 e rq ss s =
     (case route rq of
        Home \<Rightarrow> if rq_method rq = GET then (Redirect Kiosk None, ss, s) else (Abort 405, ss, s)
      | Kiosk \<Rightarrow> kiosk sha256 e rq ss s
      | Admin_login \<Rightarrow> admin_login sha256 e rq ss s
      | Admin_logout \<Rightarrow> if rq_method rq = GET then admin_logout ss s else (Abort 405, ss, s)
      | Admin_dashboard \<Rightarrow> if rq_method rq = GET then admin_dashboard e ss s else (Abort 405, ss, s)
      | Admin_add_student \<Rightarrow>
          if rq_method rq = POST then admin_add_student sha256 e rq ss s else (Abort 405, ss, s)
      | Admin_reports \<Rightarrow> if rq_method rq = GET then admin_reports e rq ss s else (Abort 405, ss, s)
      | Admin_change_password \<Rightarrow> admin_change_password sha256 e rq ss s
      | Snapshot f \<Rightarrow> if rq_method rq = GET then snapshot f ss s else (Abort 405, ss, s))"

text \<open>
  The states the application can be in: the store after \<^verbatim>\<open>init_db\<close> on empty
  tables, and every store a request leaves behind, whatever the session it came with.
\<close>

inductive reachable :: "(byte list \<Rightarrow> byte list) \<Rightarrow> state \<Rightarrow> bool"
  for sha256 :: "byte list \<Rightarrow> byte list" where
  reachable_init: "reachable sha256 (init_db sha256 e empty_state)"
| reachable_step:
    "reachable sha256 s \<Longrightarrow> handle sha256 e rq ss s = (resp, ss', s') \<Longrightarrow> reachable sha256 s'"

text \<open>The invariants of the store.\<close>

definition attendance_unique :: "state \<Rightarrow> bool" where
  "attendance_unique s = distinct (map (\<lambda>a. (a_student_id a, a_day a)) (attendance s))"

definition day_unique :: "state \<Rightarrow> bool" where
  "day_unique s = distinct (map ds_day (day_session s))"

definition roll_unique :: "state \<Rightarrow> bool" where
  "roll_unique s = distinct (map s_roll_no (students s))"

definition codes_upper :: "state \<Rightarrow> bool" where
  "codes_upper s = list_all (\<lambda>r. upper (ds_session_code r) = ds_session_code r) (day_session s)"

section \<open>A client at the kiosk\<close>


section \<open>A classroom morning\<close>

text \<open>
  The data of the examples: student 12 with PIN 4321 and student 7 with PIN 1111 in
  class 10 A, the random bytes A1 B2 C3 of the day's code, and a camera that delivers a
  frame. The hash function of the examples is the identity on bytes, so that a digest
  can be read.
\<close>

definition toy_sha256 :: "byte list \<Rightarrow> byte list" where
  "toy_sha256 bs = bs"

definition ex_env :: env where
  "ex_env = \<lparr>today = ''2025-03-10'', now = ''2025-03-10 08:15:00'', snap_ts = ''20250310_081500'',
     rnd = (\<lambda>i. if i = 0 then 0xA1 else if i = 1 then 0xB2 else 0xC3),
     opencv_ok = True, cam_opened = True, cam_frame = Some [0xFF, 0xD8]\<rparr>"

definition ex_admin_session :: session where
  "ex_admin_session = \<lparr>sess_admin = True, sess_rl = None\<rparr>"

definition ex_add_12 :: request where
  "ex_add_12 = \<lparr>route = Admin_add_student, rq_method = POST,
     form = [''roll_no'' \<mapsto> ''12'', ''full_name'' \<mapsto> ''Asha Rai'', ''class_name'' \<mapsto> ''10'',
             ''section'' \<mapsto> ''A'', ''pin'' \<mapsto> ''4321''],
     args = Map.empty, remote_addr = Some ''127.0.0.1'', user_agent = Some ''kiosk''\<rparr>"

definition ex_add_7 :: request where
  "ex_add_7 = \<lparr>route = Admin_add_student, rq_method = POST,
     form = [''roll_no'' \<mapsto> ''7'', ''full_name'' \<mapsto> ''Binod Karki'', ''class_name'' \<mapsto> ''10'',
             ''section'' \<mapsto> ''A'', ''pin'' \<mapsto> ''1111''],
     args = Map.empty, remote_addr = Some ''127.0.0.1'', user_agent = Some ''kiosk''\<rparr>"

definition ex_get :: request where
  "ex_get = \<lparr>route = Kiosk, rq_method = GET, form = Map.empty, args = Map.empty,
     remote_addr = Some ''127.0.0.1'', user_agent = Some ''kiosk''\<rparr>"

definition ex_post :: "string \<Rightarrow> string \<Rightarrow> string \<Rightarrow> request" where
  "ex_post roll pin code = \<lparr>route = Kiosk, rq_method = POST,
     form = [''roll_no'' \<mapsto> roll, ''pin'' \<mapsto> pin, ''session_code'' \<mapsto> code],
     args = Map.empty, remote_addr = Some ''127.0.0.1'', user_agent = Some ''kiosk''\<rparr>"

definition ex_report :: request where
  "ex_report = \<lparr>route = Admin_reports, rq_method = GET, form = Map.empty,
     args = [''day'' \<mapsto> ''2025-03-10''], remote_addr = Some ''127.0.0.1'',
     user_agent = Some ''kiosk''\<rparr>"

text \<open>A session that has already made twenty attempts.\<close>

definition ex_tired_session :: session where
  "ex_tired_session =
     \<lparr>sess_admin = False, sess_rl = Some \<lparr>rl_count = 20, rl_ts = ''2025-03-10 08:00:00''\<rparr>\<rparr>"

text \<open>
  The stores of the morning: after start-up, with the two students enrolled, with the
  day's code created by the first visit of the kiosk, and after student 12 has checked
  in with the code typed in lower case.
\<close>

definition ex_init :: state where
  "ex_init = init_db toy_sha256 ex_env empty_state"

definition ex_roster :: state where
  "ex_roster =
     snd (snd (handle toy_sha256 ex_env ex_add_7 ex_admin_session
       (snd (snd (handle toy_sha256 ex_env ex_add_12 ex_admin_session ex_init)))))"

definition ex_open :: state where
  "ex_open = snd (snd (handle toy_sha256 ex_env ex_get new_session ex_roster))"

definition ex_checked :: state where
  "ex_checked =
     snd (snd (handle toy_sha256 ex_env (ex_post ''12'' ''4321'' ''a1b2c3'') new_session ex_open))"

section \<open>Properties of the text functions\<close>

lemma upper_char_idem: "upper_char (upper_char c) = upper_char c"
  by (simp add: upper_char_def)

lemma upper_idem: "upper (upper s) = upper s"
  by (simp add: upper_def upper_char_idem)

section \<open>What each view changes in the store\<close>

lemma find_None_iff': "(find P xs = None) = (\<forall>x\<in>set xs. \<not> P x)"
  by (induction xs) auto

lemma find_Some_in: "find P xs = Some x \<Longrightarrow> x \<in> set xs \<and> P x"
  by (induction xs) (auto split: if_splits)

lemma log_tables [simp]:
  "admin (log e ev d s) = admin s" "students (log e ev d s) = students s"
  "day_session (log e ev d s) = day_session s" "attendance (log e ev d s) = attendance s"
  "snap_dir (log e ev d s) = snap_dir s"
  by (simp_all add: log_def)

lemma get_or_create_sequential:
  "\<exists>code s0. get_or_create_session_code (\<lambda>x. x) e s = (Inr code, s0)
     \<and> admin s0 = admin s \<and> students s0 = students s \<and> attendance s0 = attendance s
     \<and> snap_dir s0 = snap_dir s
     \<and> (day_session s0 = day_session s \<and> audit_log s0 = audit_log s \<and> s0 = s
          \<and> (\<exists>r\<in>set (day_session s). ds_day r = today e \<and> ds_session_code r = code)
        \<or> (\<forall>r\<in>set (day_session s). ds_day r \<noteq> today e) \<and> code = upper (token_hex e 3)
          \<and> day_session s0 = day_session s @
               [\<lparr>ds_day = today e, ds_session_code = code, ds_created_at = now e\<rparr>])"
proof (cases "select_session_code (today e) s")
  case None
  then have fresh: "\<forall>r\<in>set (day_session s). ds_day r \<noteq> today e"
    by (simp add: select_session_code_def find_None_iff')
  then have "today e \<notin> ds_day ` set (day_session s)" by auto
  with None fresh show ?thesis
    by (simp add: get_or_create_session_code_def insert_day_session_def Let_def)
next
  case (Some code)
  then obtain r where "find (\<lambda>r. ds_day r = today e) (day_session s) = Some r" "ds_session_code r = code"
    by (auto simp: select_session_code_def)
  then have "r \<in> set (day_session s)" "ds_day r = today e" "ds_session_code r = code"
    using find_Some_in [of "\<lambda>r. ds_day r = today e" "day_session s" r] by simp_all
  with Some show ?thesis
    by (auto simp: get_or_create_session_code_def)
qed

lemma bump_rate_limit_session:
  "sess_admin (snd (bump_rate_limit e m ss)) = sess_admin ss"
  by (simp add: bump_rate_limit_def rate_limit_key_def Let_def split: option.splits)

lemma capture_snapshot_tables [simp]:
  "admin (snd (capture_snapshot e r s)) = admin s"
  "students (snd (capture_snapshot e r s)) = students s"
  "day_session (snd (capture_snapshot e r s)) = day_session s"
  "attendance (snd (capture_snapshot e r s)) = attendance s"
  "audit_log (snd (capture_snapshot e r s)) = audit_log s"
  by (simp_all add: capture_snapshot_def Let_def split: option.splits)

lemma record_attendance_tables:
  "students (snd (record_attendance e rq roll stu s)) = students s"
  "day_session (snd (record_attendance e rq roll stu s)) = day_session s"
  "admin (snd (record_attendance e rq roll stu s)) = admin s"
  by (simp_all add: record_attendance_def insert_attendance_def Let_def split_beta split: sum.splits error.splits)

lemma record_attendance_attendance:
  "attendance (snd (record_attendance e rq roll stu s)) = attendance s
     \<and> (s_id stu, today e) \<in> set (map (\<lambda>a. (a_student_id a, a_day a)) (attendance s))
   \<or> (s_id stu, today e) \<notin> set (map (\<lambda>a. (a_student_id a, a_day a)) (attendance s))
     \<and> (\<exists>a. attendance (snd (record_attendance e rq roll stu s)) = attendance s @ [a]
            \<and> a_student_id a = s_id stu \<and> a_day a = today e)"
  by (simp add: record_attendance_def insert_attendance_def Let_def split_beta)

lemma check_in_tables:
  "students (snd (check_in sha256 e rq code s)) = students s"
  "day_session (snd (check_in sha256 e rq code s)) = day_session s"
  "admin (snd (check_in sha256 e rq code s)) = admin s"
  by (simp_all add: check_in_def Let_def record_attendance_tables split: option.splits)

lemma record_attendance_fresh:
  "attendance (snd (record_attendance e rq roll stu s)) = attendance s
   \<or> (\<exists>a. attendance (snd (record_attendance e rq roll stu s)) = attendance s @ [a]
          \<and> (a_student_id a, a_day a) \<notin> set (map (\<lambda>a. (a_student_id a, a_day a)) (attendance s)))"
  using record_attendance_attendance [of e rq roll stu s] by auto

lemma check_in_attendance:
  "attendance (snd (check_in sha256 e rq code s)) = attendance s
   \<or> (\<exists>a. attendance (snd (check_in sha256 e rq code s)) = attendance s @ [a]
          \<and> (a_student_id a, a_day a) \<notin> set (map (\<lambda>a. (a_student_id a, a_day a)) (attendance s)))"
proof (cases "\<exists>stu. check_in sha256 e rq code s
    = record_attendance e rq (strip (form_get rq ''roll_no'')) stu s")
  case True
  then show ?thesis using record_attendance_fresh by metis
next
  case False
  then have "attendance (snd (check_in sha256 e rq code s)) = attendance s"
    by (auto simp: check_in_def Let_def split: option.splits if_splits)
  then show ?thesis by simp
qed

lemma kiosk_tables:
  assumes "kiosk sha256 e rq ss s = (resp, ss', s')"
  shows "students s' = students s" "admin s' = admin s"
    "day_session s' = day_session s
       \<or> (\<forall>r\<in>set (day_session s). ds_day r \<noteq> today e)
         \<and> day_session s' = day_session s @
             [\<lparr>ds_day = today e, ds_session_code = upper (token_hex e 3), ds_created_at = now e\<rparr>]"
    "attendance s' = attendance s
       \<or> (\<exists>a. attendance s' = attendance s @ [a]
            \<and> (a_student_id a, a_day a) \<notin> set (map (\<lambda>a. (a_student_id a, a_day a)) (attendance s)))"
proof -
  obtain code s0 where g: "get_or_create_session_code (\<lambda>x. x) e s = (Inr code, s0)"
    and fr: "admin s0 = admin s" "students s0 = students s" "attendance s0 = attendance s"
    and ds: "day_session s0 = day_session s
       \<or> (\<forall>r\<in>set (day_session s). ds_day r \<noteq> today e)
         \<and> day_session s0 = day_session s @
             [\<lparr>ds_day = today e, ds_session_code = upper (token_hex e 3), ds_created_at = now e\<rparr>]"
    using get_or_create_sequential [of e s] by auto
  have s': "s' = s0 \<or> s' = snd (check_in sha256 e rq code s0)"
    using assms g by (auto simp: kiosk_def split_beta split: if_splits option.splits prod.splits)
  show "students s' = students s" using s' fr by (auto simp: check_in_tables)
  show "admin s' = admin s" using s' fr by (auto simp: check_in_tables)
  show "day_session s' = day_session s
       \<or> (\<forall>r\<in>set (day_session s). ds_day r \<noteq> today e)
         \<and> day_session s' = day_session s @
             [\<lparr>ds_day = today e, ds_session_code = upper (token_hex e 3), ds_created_at = now e\<rparr>]"
    using s' ds by (auto simp: check_in_tables)
  show "attendance s' = attendance s
       \<or> (\<exists>a. attendance s' = attendance s @ [a]
            \<and> (a_student_id a, a_day a) \<notin> set (map (\<lambda>a. (a_student_id a, a_day a)) (attendance s)))"
    using s' fr check_in_attendance [of sha256 e rq code s0] by auto
qed


lemma admin_dashboard_tables:
  assumes "admin_dashboard e ss s = (resp, ss', s')"
  shows "students s' = students s" "attendance s' = attendance s"
    "day_session s' = day_session s
       \<or> (\<forall>r\<in>set (day_session s). ds_day r \<noteq> today e)
         \<and> day_session s' = day_session s @
             [\<lparr>ds_day = today e, ds_session_code = upper (token_hex e 3), ds_created_at = now e\<rparr>]"
proof -
  obtain code s0 where g: "get_or_create_session_code (\<lambda>x. x) e s = (Inr code, s0)"
    and fr: "students s0 = students s" "attendance s0 = attendance s"
    and ds: "day_session s0 = day_session s
       \<or> (\<forall>r\<in>set (day_session s). ds_day r \<noteq> today e)
         \<and> day_session s0 = day_session s @
             [\<lparr>ds_day = today e, ds_session_code = upper (token_hex e 3), ds_created_at = now e\<rparr>]"
    using get_or_create_sequential [of e s] by auto
  have s': "s' = s \<or> s' = s0"
    using assms g by (auto simp: admin_dashboard_def split: if_splits)
  show "students s' = students s" using s' fr by auto
  show "attendance s' = attendance s" using s' fr by auto
  show "day_session s' = day_session s
       \<or> (\<forall>r\<in>set (day_session s). ds_day r \<noteq> today e)
         \<and> day_session s' = day_session s @
             [\<lparr>ds_day = today e, ds_session_code = upper (token_hex e 3), ds_created_at = now e\<rparr>]"
    using s' ds by auto
qed

lemma admin_add_student_tables:
  assumes "admin_add_student sha256 e rq ss s = (resp, ss', s')"
  shows "day_session s' = day_session s" "attendance s' = attendance s"
    "students s' = students s
       \<or> (\<exists>st. students s' = students s @ [st] \<and> s_roll_no st \<notin> set (map s_roll_no (students s)))"
  using assms
  by (auto simp: admin_add_student_def insert_student_def Let_def split: if_splits)

lemma other_views_tables:
  "admin_login sha256 e rq ss s = (resp, ss', s') \<Longrightarrow>
     students s' = students s \<and> day_session s' = day_session s \<and> attendance s' = attendance s"
  "admin_logout ss s = (resp, ss', s') \<Longrightarrow>
     students s' = students s \<and> day_session s' = day_session s \<and> attendance s' = attendance s"
  "admin_reports e rq ss s = (resp, ss', s') \<Longrightarrow>
     students s' = students s \<and> day_session s' = day_session s \<and> attendance s' = attendance s"
  "admin_change_password sha256 e rq ss s = (resp, ss', s') \<Longrightarrow>
     students s' = students s \<and> day_session s' = day_session s \<and> attendance s' = attendance s"
  "snapshot f ss s = (resp, ss', s') \<Longrightarrow>
     students s' = students s \<and> day_session s' = day_session s \<and> attendance s' = attendance s"
  by (auto simp: admin_login_def admin_logout_def admin_reports_def admin_change_password_def
      snapshot_def Let_def split_beta split: if_splits option.splits)

lemma handle_tables:
  assumes h: "handle sha256 e rq ss s = (resp, ss', s')"
  shows "students s' = students s
       \<or> (\<exists>st. students s' = students s @ [st] \<and> s_roll_no st \<notin> set (map s_roll_no (students s)))"
    (is ?S)
    and "day_session s' = day_session s
       \<or> (\<forall>r\<in>set (day_session s). ds_day r \<noteq> today e)
         \<and> day_session s' = day_session s @
             [\<lparr>ds_day = today e, ds_session_code = upper (token_hex e 3), ds_created_at = now e\<rparr>]"
    (is ?D)
    and "attendance s' = attendance s
       \<or> (\<exists>a. attendance s' = attendance s @ [a]
            \<and> (a_student_id a, a_day a) \<notin> set (map (\<lambda>a. (a_student_id a, a_day a)) (attendance s)))"
    (is ?A)
proof -
  have same: "?S \<and> ?D \<and> ?A"
    if "students s' = students s \<and> day_session s' = day_session s \<and> attendance s' = attendance s"
    using that by simp
  have "?S \<and> ?D \<and> ?A"
  proof (cases "route rq")
    case Home
    with h have "s' = s" by (simp add: handle_def split: if_splits)
    then show ?thesis by simp
  next
    case Kiosk
    with h have k: "kiosk sha256 e rq ss s = (resp, ss', s')" by (simp add: handle_def)
    show ?thesis using kiosk_tables(1,3,4) [OF k] by simp
  next
    case Admin_login
    with h have "admin_login sha256 e rq ss s = (resp, ss', s')" by (simp add: handle_def)
    then show ?thesis by (intro same other_views_tables(1))
  next
    case Admin_logout
    with h have "s' = s" by (simp add: handle_def admin_logout_def split: if_splits)
    then show ?thesis by simp
  next
    case Admin_dashboard
    show ?thesis
    proof (cases "rq_method rq = GET")
      case True
      with h Admin_dashboard have d: "admin_dashboard e ss s = (resp, ss', s')"
        by (simp add: handle_def)
      show ?thesis using admin_dashboard_tables [OF d] by simp
    next
      case False
      with h Admin_dashboard have "s' = s" by (simp add: handle_def)
      then show ?thesis by simp
    qed
  next
    case Admin_add_student
    show ?thesis
    proof (cases "rq_method rq = POST")
      case True
      with h Admin_add_student have a: "admin_add_student sha256 e rq ss s = (resp, ss', s')"
        by (simp add: handle_def)
      show ?thesis using admin_add_student_tables [OF a] by simp
    next
      case False
      with h Admin_add_student have "s' = s" by (simp add: handle_def)
      then show ?thesis by simp
    qed
  next
    case Admin_reports
    show ?thesis
    proof (cases "rq_method rq = GET")
      case True
      with h Admin_reports have "admin_reports e rq ss s = (resp, ss', s')"
        by (simp add: handle_def)
      then show ?thesis by (intro same other_views_tables(3))
    next
      case False
      with h Admin_reports have "s' = s" by (simp add: handle_def)
      then show ?thesis by simp
    qed
  next
    case Admin_change_password
    with h have "admin_change_password sha256 e rq ss s = (resp, ss', s')"
      by (simp add: handle_def)
    then show ?thesis by (intro same other_views_tables(4))
  next
    case (Snapshot f)
    with h have "s' = s" by (simp add: handle_def snapshot_def split: if_splits)
    then show ?thesis by simp
  qed
  then show ?S and ?D and ?A by simp_all
qed

lemma init_db_tables:
  "students (init_db sha256 e empty_state) = []" "day_session (init_db sha256 e empty_state) = []"
  "attendance (init_db sha256 e empty_state) = []"
  by (simp_all add: init_db_def empty_state_def Let_def)

lemma reachable_invariants:
  assumes "reachable sha256 s"
  shows "attendance_unique s \<and> day_unique s \<and> roll_unique s \<and> codes_upper s"
  using assms
proof (induction rule: reachable.induct)
  case (reachable_init e)
  show ?case
    by (simp add: attendance_unique_def day_unique_def roll_unique_def codes_upper_def init_db_tables)
next
  case (reachable_step s e rq ss resp ss' s')
  note t = handle_tables [OF reachable_step.hyps(2)]
  from reachable_step.IH t(3) have "attendance_unique s'"
    by (auto simp: attendance_unique_def)
  moreover from reachable_step.IH t(2) have "day_unique s'"
    by (fastforce simp: day_unique_def)
  moreover from reachable_step.IH t(1) have "roll_unique s'"
    by (auto simp: roll_unique_def)
  moreover from reachable_step.IH t(2) have "codes_upper s'"
    by (auto simp: codes_upper_def upper_idem)
  ultimately show ?case by simp
qed

section \<open>The stores of the example\<close>

lemma ex_token: "token_hex ex_env 3 = ''a1b2c3''"
  by (simp add: token_hex_def ex_env_def upt_rec hex_def hex_byte_def hex_digit_def)

lemma ex_code: "upper (token_hex ex_env 3) = ''A1B2C3''"
  by (simp add: ex_token upper_def upper_char_def)

lemma ex_env_fields:
  "today ex_env = ''2025-03-10''" "now ex_env = ''2025-03-10 08:15:00''"
  "snap_ts ex_env = ''20250310_081500''" "opencv_ok ex_env" "cam_opened ex_env"
  "cam_frame ex_env = Some [0xFF, 0xD8]"
  by (simp_all add: ex_env_def)

lemma ex_init_tables:
  "students ex_init = []" "day_session ex_init = []" "attendance ex_init = []" "snap_dir ex_init = Map.empty"
  by (simp_all add: ex_init_def init_db_def empty_state_def Let_def)

lemma strip_examples:
  "strip ''12'' = ''12''" "strip ''7'' = ''7''" "strip ''4321'' = ''4321''" "strip ''1111'' = ''1111''"
  "strip ''10'' = ''10''" "strip ''A'' = ''A''" "strip ''Asha Rai'' = ''Asha Rai''"
  "strip ''Binod Karki'' = ''Binod Karki''" "strip ''a1b2c3'' = ''a1b2c3''"
  "strip ''2025-03-10'' = ''2025-03-10''"
  by (simp_all add: strip_def is_space_def)

lemma ex_roster_tables:
  "students ex_roster =
     [\<lparr>s_id = 1, s_roll_no = ''12'', s_full_name = ''Asha Rai'', s_class_name = ''10'',
       s_section = ''A'', s_pin_hash = hash_pw toy_sha256 ''4321'' (token_hex ex_env 16),
       s_salt = token_hex ex_env 16, s_created_at = ''2025-03-10 08:15:00''\<rparr>,
      \<lparr>s_id = 2, s_roll_no = ''7'', s_full_name = ''Binod Karki'', s_class_name = ''10'',
       s_section = ''A'', s_pin_hash = hash_pw toy_sha256 ''1111'' (token_hex ex_env 16),
       s_salt = token_hex ex_env 16, s_created_at = ''2025-03-10 08:15:00''\<rparr>]"
  "day_session ex_roster = []" "attendance ex_roster = []" "snap_dir ex_roster = Map.empty"
  by (simp_all add: ex_roster_def handle_def admin_add_student_def ex_add_12_def ex_add_7_def
      ex_admin_session_def form_get_def strip_examples insert_student_def ex_init_tables Let_def
      log_def next_id_def ex_env_fields)

lemma ex_open_tables:
  "students ex_open = students ex_roster"
  "day_session ex_open =
     [\<lparr>ds_day = ''2025-03-10'', ds_session_code = ''A1B2C3'', ds_created_at = ''2025-03-10 08:15:00''\<rparr>]"
  "attendance ex_open = []" "snap_dir ex_open = Map.empty"
  by (simp_all add: ex_open_def handle_def kiosk_def ex_get_def get_or_create_session_code_def
      select_session_code_def insert_day_session_def ex_roster_tables ex_code ex_env_fields Let_def)

lemma ex_post_fields:
  "rq_method (ex_post r p c) = POST" "route (ex_post r p c) = Kiosk"
  "form_get (ex_post r p c) ''roll_no'' = r" "form_get (ex_post r p c) ''pin'' = p"
  "form_get (ex_post r p c) ''session_code'' = c"
  "remote_addr (ex_post r p c) = Some ''127.0.0.1''" "user_agent (ex_post r p c) = Some ''kiosk''"
  by (simp_all add: ex_post_def form_get_def)

lemma ex_bump: "bump_rate_limit e 20 new_session
   = (None, \<lparr>sess_admin = False, sess_rl = Some \<lparr>rl_count = 1, rl_ts = now e\<rparr>\<rparr>)"
  by (simp add: bump_rate_limit_def rate_limit_key_def new_session_def Let_def)

lemma ex_upper: "upper ''a1b2c3'' = ''A1B2C3''" "upper ''A1B2C3'' = ''A1B2C3''"
  by (simp_all add: upper_def upper_char_def)

lemma ex_checked_tables:
  "students ex_checked = students ex_roster"
  "day_session ex_checked = day_session ex_open"
  "attendance ex_checked =
     [\<lparr>a_id = 1, a_student_id = 1, a_day = ''2025-03-10'', a_status = ''P'',
       a_checked_in_at = ''2025-03-10 08:15:00'',
       a_snapshot_path = Some ''2025-03-10_12_20250310_081500.jpg'',
       a_ip = Some ''127.0.0.1'', a_user_agent = ''kiosk''\<rparr>]"
  "snap_dir ex_checked = [''2025-03-10_12_20250310_081500.jpg'' \<mapsto> [0xFF, 0xD8]]"
  by (simp_all add: ex_checked_def handle_def kiosk_def ex_post_fields get_or_create_session_code_def
      select_session_code_def ex_open_tables ex_roster_tables ex_env_fields ex_bump
      check_in_def strip_examples ex_upper select_student_def record_attendance_def
      capture_snapshot_def insert_attendance_def next_id_def Let_def)

section \<open>The branches of the kiosk\<close>

lemma kiosk_post:
  assumes "rq_method rq = POST" and "bump_rate_limit e 20 ss = (None, ss1)"
    and "get_or_create_session_code (\<lambda>x. x) e s = (Inr code, s0)"
  shows "kiosk sha256 e rq ss s
         = (fst (check_in sha256 e rq code s0), ss1, snd (check_in sha256 e rq code s0))"
  using assms by (simp add: kiosk_def split_beta)

lemma kiosk_limited:
  assumes "rq_method rq = POST" and "bump_rate_limit e 20 ss = (Some st, ss1)"
    and "get_or_create_session_code (\<lambda>x. x) e s = (Inr code, s0)"
  shows "kiosk sha256 e rq ss s = (Abort st, ss1, s0)"
  using assms by (simp add: kiosk_def)

lemma kiosk_get:
  assumes "rq_method rq = GET"
    and "get_or_create_session_code (\<lambda>x. x) e s = (Inr code, s0)"
  shows "kiosk sha256 e rq ss s = (Kiosk_page code, ss, s0)"
  using assms by (simp add: kiosk_def)

lemma check_in_missing:
  assumes "strip (form_get rq ''roll_no'') = [] \<or> strip (form_get rq ''pin'') = []
           \<or> upper (strip (form_get rq ''session_code'')) = []"
  shows "check_in sha256 e rq code s = (Redirect Kiosk (Some Fill_all_fields), s)"
  using assms by (auto simp: check_in_def Let_def)

lemma check_in_bad_code:
  assumes "strip (form_get rq ''roll_no'') \<noteq> []" "strip (form_get rq ''pin'') \<noteq> []"
    "upper (strip (form_get rq ''session_code'')) \<noteq> []"
    "upper (strip (form_get rq ''session_code'')) \<noteq> code"
  shows "check_in sha256 e rq code s =
     (Redirect Kiosk (Some Wrong_session_code),
      log e ''CHECKIN_FAIL''
        (''roll='' @ strip (form_get rq ''roll_no'') @ '', reason=bad_session_code'') s)"
  using assms by (simp add: check_in_def Let_def)

lemma check_in_unknown:
  assumes "strip (form_get rq ''roll_no'') \<noteq> []" "strip (form_get rq ''pin'') \<noteq> []"
    "upper (strip (form_get rq ''session_code'')) \<noteq> []"
    "upper (strip (form_get rq ''session_code'')) = code"
    "select_student (strip (form_get rq ''roll_no'')) s = None"
  shows "check_in sha256 e rq code s =
     (Redirect Kiosk (Some Unknown_roll_number),
      log e ''CHECKIN_FAIL''
        (''roll='' @ strip (form_get rq ''roll_no'') @ '', reason=unknown_roll'') s)"
  using assms by (simp add: check_in_def Let_def)

lemma check_in_bad_pin:
  assumes "strip (form_get rq ''roll_no'') \<noteq> []" "strip (form_get rq ''pin'') \<noteq> []"
    "upper (strip (form_get rq ''session_code'')) \<noteq> []"
    "upper (strip (form_get rq ''session_code'')) = code"
    "select_student (strip (form_get rq ''roll_no'')) s = Some stu"
    "hash_pw sha256 (strip (form_get rq ''pin'')) (s_salt stu) \<noteq> s_pin_hash stu"
  shows "check_in sha256 e rq code s =
     (Redirect Kiosk (Some Wrong_PIN),
      log e ''CHECKIN_FAIL''
        (''roll='' @ strip (form_get rq ''roll_no'') @ '', reason=bad_pin'') s)"
  using assms by (simp add: check_in_def Let_def)

lemma check_in_passed:
  assumes "strip (form_get rq ''roll_no'') \<noteq> []" "strip (form_get rq ''pin'') \<noteq> []"
    "upper (strip (form_get rq ''session_code'')) \<noteq> []"
    "upper (strip (form_get rq ''session_code'')) = code"
    "select_student (strip (form_get rq ''roll_no'')) s = Some stu"
    "hash_pw sha256 (strip (form_get rq ''pin'')) (s_salt stu) = s_pin_hash stu"
  shows "check_in sha256 e rq code s
         = record_attendance e rq (strip (form_get rq ''roll_no'')) stu s"
  using assms by (simp add: check_in_def Let_def)

lemma record_attendance_dup:
  assumes "(s_id stu, today e) \<in> set (map (\<lambda>a. (a_student_id a, a_day a)) (attendance s))"
  shows "record_attendance e rq roll stu s =
     (Redirect Kiosk (Some Already_checked_in),
      log e ''CHECKIN_DUP'' (''roll='' @ roll @ '' already checked today'')
        (snd (capture_snapshot e roll s)))"
  using assms by (simp add: record_attendance_def insert_attendance_def split_beta)

lemma record_attendance_new:
  assumes "(s_id stu, today e) \<notin> set (map (\<lambda>a. (a_student_id a, a_day a)) (attendance s))"
  shows "fst (record_attendance e rq roll stu s)
           = Checked_in_page (s_full_name stu) (s_roll_no stu) (today e) (now e)"
    and "attendance (snd (record_attendance e rq roll stu s)) = attendance s @
       [\<lparr>a_id = next_id (map a_id (attendance s)), a_student_id = s_id stu, a_day = today e,
         a_status = ''P'', a_checked_in_at = now e,
         a_snapshot_path = fst (capture_snapshot e roll s), a_ip = remote_addr rq,
         a_user_agent = take 300 (case user_agent rq of None \<Rightarrow> [] | Some u \<Rightarrow> u)\<rparr>]"
    and "snap_dir (snd (record_attendance e rq roll stu s)) = snap_dir (snd (capture_snapshot e roll s))"
    and "audit_log (snd (record_attendance e rq roll stu s)) = audit_log s @
       [\<lparr>al_id = next_id (map al_id (audit_log s)), al_ts = now e, al_event = ''CHECKIN_OK'',
         al_detail = take 1000 (''roll='' @ roll @ '', snap='' @
           (case fst (capture_snapshot e roll s) of None \<Rightarrow> ''none''
            | Some f \<Rightarrow> if f = [] then ''none'' else f))\<rparr>]"
  using assms
  by (simp_all add: record_attendance_def insert_attendance_def split_beta log_def)


section \<open>Session code registry\<close>

lemma find_unique:
  "distinct (map f xs) \<Longrightarrow> r \<in> set xs \<Longrightarrow> find (\<lambda>x. f x = f r) xs = Some r"
  by (induction xs) (auto simp: rev_image_eqI)

lemma find_append_new:
  "\<forall>x\<in>set xs. \<not> P x \<Longrightarrow> P r \<Longrightarrow> find P (xs @ [r]) = Some r"
  by (induction xs) auto

lemma select_session_code_row:
  assumes "day_unique s" "r \<in> set (day_session s)"
  shows "select_session_code (ds_day r) s = Some (ds_session_code r)"
  using find_unique [of ds_day "day_session s" r] assms
  by (simp add: select_session_code_def day_unique_def)

text \<open>
  C3. Once the row of a day exists, \<^verbatim>\<open>get_or_create_session_code\<close> returns the
  stored code and leaves the whole store as it was (no new code, no update of the row,
  no audit event), whatever other connections do. When the row does not exist, the
  call creates it, writes the one \<^verbatim>\<open>NEW_DAY_SESSION\<close> event, and every later call
  of that day returns the same code and changes nothing.
\<close>

theorem get_or_create_session_code_idempotent:
  assumes "day_unique s"
  shows "(\<forall>r\<in>set (day_session s). ds_day r = today e \<longrightarrow>
            get_or_create_session_code other e s = (Inr (ds_session_code r), s))
       \<and> ((\<forall>r\<in>set (day_session s). ds_day r \<noteq> today e) \<longrightarrow>
            (\<exists>code s1. get_or_create_session_code (\<lambda>x. x) e s = (Inr code, s1)
               \<and> day_session s1 = day_session s @
                    [\<lparr>ds_day = today e, ds_session_code = code, ds_created_at = now e\<rparr>]
               \<and> audit_log s1 = audit_log s @
                    [\<lparr>al_id = next_id (map al_id (audit_log s)), al_ts = now e,
                      al_event = ''NEW_DAY_SESSION'',
                      al_detail = take 1000 (''day='' @ today e @ '', code='' @ code)\<rparr>]
               \<and> (\<forall>e' other'. today e' = today e \<longrightarrow>
                     get_or_create_session_code other' e' s1 = (Inr code, s1))))"
proof (intro conjI ballI impI)
  fix r assume "r \<in> set (day_session s)" "ds_day r = today e"
  with assms have "select_session_code (today e) s = Some (ds_session_code r)"
    using select_session_code_row [of s r] by simp
  then show "get_or_create_session_code other e s = (Inr (ds_session_code r), s)"
    by (simp add: get_or_create_session_code_def)
next
  assume fresh: "\<forall>r\<in>set (day_session s). ds_day r \<noteq> today e"
  define code where "code = upper (token_hex e 3)"
  define row where "row = \<lparr>ds_day = today e, ds_session_code = code, ds_created_at = now e\<rparr>"
  define s1 where "s1 = log e ''NEW_DAY_SESSION'' (''day='' @ today e @ '', code='' @ code)
    (s\<lparr>day_session := day_session s @ [row]\<rparr>)"
  from fresh have none: "select_session_code (today e) s = None"
    by (simp add: select_session_code_def find_None_iff')
  from fresh have ins: "insert_day_session row s = Inr (s\<lparr>day_session := day_session s @ [row]\<rparr>)"
    by (auto simp: insert_day_session_def row_def)
  have run: "get_or_create_session_code (\<lambda>x. x) e s = (Inr code, s1)"
    using none ins by (simp add: get_or_create_session_code_def Let_def code_def row_def s1_def)
  have ds: "day_session s1 = day_session s @ [row]"
    by (simp add: s1_def)
  have al: "audit_log s1 = audit_log s @
      [\<lparr>al_id = next_id (map al_id (audit_log s)), al_ts = now e, al_event = ''NEW_DAY_SESSION'',
        al_detail = take 1000 (''day='' @ today e @ '', code='' @ code)\<rparr>]"
    by (simp add: s1_def log_def)
  have again: "get_or_create_session_code other' e' s1 = (Inr code, s1)"
    if "today e' = today e" for e' other'
  proof -
    have "find (\<lambda>r. ds_day r = today e) (day_session s @ [row]) = Some row"
      using fresh by (intro find_append_new) (simp_all add: row_def)
    then have "select_session_code (today e') s1 = Some code"
      using that by (simp add: select_session_code_def ds row_def)
    then show ?thesis by (simp add: get_or_create_session_code_def)
  qed
  show "\<exists>code s1. get_or_create_session_code (\<lambda>x. x) e s = (Inr code, s1)
               \<and> day_session s1 = day_session s @
                    [\<lparr>ds_day = today e, ds_session_code = code, ds_created_at = now e\<rparr>]
               \<and> audit_log s1 = audit_log s @
                    [\<lparr>al_id = next_id (map al_id (audit_log s)), al_ts = now e,
                      al_event = ''NEW_DAY_SESSION'',
                      al_detail = take 1000 (''day='' @ today e @ '', code='' @ code)\<rparr>]
               \<and> (\<forall>e' other'. today e' = today e \<longrightarrow>
                     get_or_create_session_code other' e' s1 = (Inr code, s1))"
    using run ds al again unfolding row_def by blast
qed

text \<open>
  At the example: the store with the day's row returns A1B2C3 unchanged, and the store
  of the roster, which has no row yet, creates one.
\<close>

theorem get_or_create_session_code_idempotent_witness:
  "day_unique ex_open
   \<and> get_or_create_session_code (\<lambda>x. x) ex_env ex_open = (Inr ''A1B2C3'', ex_open)
   \<and> day_unique ex_roster
   \<and> (\<exists>code s1. get_or_create_session_code (\<lambda>x. x) ex_env ex_roster = (Inr code, s1)
        \<and> day_session s1 = day_session ex_roster @
             [\<lparr>ds_day = today ex_env, ds_session_code = code, ds_created_at = now ex_env\<rparr>]
        \<and> audit_log s1 = audit_log ex_roster @
             [\<lparr>al_id = next_id (map al_id (audit_log ex_roster)), al_ts = now ex_env,
               al_event = ''NEW_DAY_SESSION'',
               al_detail = take 1000 (''day='' @ today ex_env @ '', code='' @ code)\<rparr>]
        \<and> (\<forall>e' other'. today e' = today ex_env \<longrightarrow>
              get_or_create_session_code other' e' s1 = (Inr code, s1)))"
proof -
  have u1: "day_unique ex_open" by (simp add: day_unique_def ex_open_tables)
  have u2: "day_unique ex_roster" by (simp add: day_unique_def ex_roster_tables)
  have a: "get_or_create_session_code (\<lambda>x. x) ex_env ex_open = (Inr ''A1B2C3'', ex_open)"
    using get_or_create_session_code_idempotent [OF u1, of ex_env "\<lambda>x. x"]
    by (simp add: ex_open_tables ex_env_fields)
  have b: "\<forall>r\<in>set (day_session ex_roster). ds_day r \<noteq> today ex_env"
    by (simp add: ex_roster_tables)
  show ?thesis
    using u1 u2 a b get_or_create_session_code_idempotent [OF u2, of ex_env "\<lambda>x. x"] by blast
qed

section \<open>Credential hasher\<close>

lemma hex_digit_inj: "a < 16 \<Longrightarrow> b < 16 \<Longrightarrow> hex_digit a = hex_digit b \<Longrightarrow> a = b"
proof -
  assume a: "a < 16" and b: "b < 16" and e: "hex_digit a = hex_digit b"
  have d: "distinct ''0123456789abcdef''" by simp
  have l: "length ''0123456789abcdef'' = 16" by simp
  from e have "''0123456789abcdef'' ! a = ''0123456789abcdef'' ! b" by (simp only: hex_digit_def)
  with d a b l show "a = b" by (simp only: nth_eq_iff_index_eq)
qed

lemma hex_byte_inj: "hex_byte a = hex_byte b \<Longrightarrow> a = b"
proof -
  assume e: "hex_byte a = hex_byte b"
  have ua: "unat a < 256" using unsigned_less [of a] by simp
  have ub: "unat b < 256" using unsigned_less [of b] by simp
  from ua ub have bounds: "unat a div 16 < 16" "unat b div 16 < 16" by simp_all
  from e have hi: "hex_digit (unat a div 16) = hex_digit (unat b div 16)"
    and lo: "hex_digit (unat a mod 16) = hex_digit (unat b mod 16)"
    by (simp_all add: hex_byte_def)
  from hex_digit_inj [OF bounds hi] have "unat a div 16 = unat b div 16" .
  moreover from hex_digit_inj [OF _ _ lo] have "unat a mod 16 = unat b mod 16" by simp
  ultimately have "unat a = unat b" by (metis div_mult_mod_eq)
  then show "a = b" by (rule word_unat_eq_iff [THEN iffD2])
qed

lemma hex_inj: "hex as = hex bs \<Longrightarrow> as = bs"
proof (induction as arbitrary: bs)
  case Nil
  then show ?case by (cases bs) (simp_all add: hex_def hex_byte_def)
next
  case (Cons a as)
  show ?case
  proof (cases bs)
    case Nil
    with Cons.prems show ?thesis by (simp add: hex_def hex_byte_def)
  next
    case (Cons b bs')
    with Cons.prems have "hex_byte a @ hex as = hex_byte b @ hex bs'" by (simp add: hex_def)
    moreover have "length (hex_byte a) = length (hex_byte b)" by (simp add: hex_byte_def)
    ultimately have "hex_byte a = hex_byte b" "hex as = hex bs'" by simp_all
    with Cons.IH hex_byte_inj Cons show ?thesis by blast
  qed
qed

lemma encode_utf8_inj: "encode_utf8 s = encode_utf8 t \<Longrightarrow> s = t"
proof -
  have "inj (\<lambda>c. (of_nat (of_char c) :: byte))"
  proof (rule injI)
    fix c d :: char
    assume "(of_nat (of_char c) :: byte) = of_nat (of_char d)"
    then have "unat (of_nat (of_char c) :: byte) = unat (of_nat (of_char d) :: byte)" by simp
    then have "(of_char c :: nat) = of_char d" by (simp add: unat_of_nat)
    then show "c = d" by simp
  qed
  then have "inj (map (\<lambda>c. (of_nat (of_char c) :: byte)))" by simp
  then show "encode_utf8 s = encode_utf8 t \<Longrightarrow> s = t"
    unfolding encode_utf8_def by (rule injD)
qed

lemma hex_length: "length (hex bs) = 2 * length bs"
  by (induction bs) (simp_all add: hex_def hex_byte_def)


lemma toy_funpow: "(toy_sha256 ^^ n) bs = bs"
  by (induction n) (simp_all add: toy_sha256_def)

lemma hash_pw_toy_eq: "(hash_pw toy_sha256 p s = hash_pw toy_sha256 p' s) = (p = p')"
proof -
  have "(hex x = hex y) = (x = y)" for x y using hex_inj by blast
  moreover have "(encode_utf8 x = encode_utf8 y) = (x = y)" for x y using encode_utf8_inj by blast
  ultimately show ?thesis by (simp add: hash_pw_def toy_funpow)
qed

section \<open>The kiosk at the example\<close>

lemma ex_open_code:
  "get_or_create_session_code (\<lambda>x. x) ex_env ex_open = (Inr ''A1B2C3'', ex_open)"
  by (simp add: get_or_create_session_code_def select_session_code_def ex_open_tables ex_env_fields)

lemma ex_checked_code:
  "get_or_create_session_code (\<lambda>x. x) ex_env ex_checked = (Inr ''A1B2C3'', ex_checked)"
  by (simp add: get_or_create_session_code_def select_session_code_def ex_checked_tables
      ex_open_tables ex_env_fields)

lemma ex_strip_more:
  "strip ''zzzzzz'' = ''zzzzzz''" "strip ''99'' = ''99''" "strip ''0000'' = ''0000''" "strip [] = []"
  "upper ''zzzzzz'' = ''ZZZZZZ''"
  by (simp_all add: strip_def is_space_def upper_def upper_char_def)

lemma ex_tired_bump:
  "bump_rate_limit e 20 ex_tired_session =
     (Some 429, \<lparr>sess_admin = False,
        sess_rl = Some \<lparr>rl_count = 21, rl_ts = ''2025-03-10 08:00:00''\<rparr>\<rparr>)"
  by (simp add: bump_rate_limit_def rate_limit_key_def ex_tired_session_def Let_def)

lemma ex_responses:
  "fst (kiosk toy_sha256 ex_env (ex_post ''12'' [] ''a1b2c3'') new_session ex_open)
     = Redirect Kiosk (Some Fill_all_fields)"
  "fst (kiosk toy_sha256 ex_env (ex_post ''12'' ''4321'' ''zzzzzz'') new_session ex_open)
     = Redirect Kiosk (Some Wrong_session_code)"
  "fst (kiosk toy_sha256 ex_env (ex_post ''99'' ''4321'' ''a1b2c3'') new_session ex_open)
     = Redirect Kiosk (Some Unknown_roll_number)"
  "fst (kiosk toy_sha256 ex_env (ex_post ''12'' ''0000'' ''a1b2c3'') new_session ex_open)
     = Redirect Kiosk (Some Wrong_PIN)"
  "fst (kiosk toy_sha256 ex_env (ex_post ''12'' ''4321'' ''a1b2c3'') new_session ex_checked)
     = Redirect Kiosk (Some Already_checked_in)"
  "fst (kiosk toy_sha256 ex_env (ex_post ''12'' ''4321'' ''a1b2c3'') ex_tired_session ex_open)
     = Abort 429"
  by (simp_all add: kiosk_def ex_post_fields ex_open_code ex_checked_code ex_bump ex_tired_bump
      check_in_def strip_examples ex_strip_more ex_upper select_student_def ex_checked_tables
      ex_open_tables ex_roster_tables hash_pw_toy_eq record_attendance_def insert_attendance_def
      ex_env_fields split_beta Let_def)

section \<open>Audit of rejected check-ins\<close>

text \<open>
  C8, as the code has it. A rejection for a wrong session code, an unknown roll number,
  a wrong PIN or a second check-in of the day appends exactly one audit row that names
  the reason after the roll number (the detail cut at 1000 characters), to the log as
  the fetch of the day's code left it. The rejection for a missing field and the
  rejection by the rate limiter append nothing.
\<close>

theorem check_in_failures_audited:
  assumes k: "kiosk sha256 e rq ss s = (resp, ss', s')"
    and s0: "s0 = snd (get_or_create_session_code (\<lambda>x. x) e s)"
    and roll: "roll = strip (form_get rq ''roll_no'')"
  shows "(resp = Redirect Kiosk (Some Wrong_session_code) \<longrightarrow>
            audit_log s' = audit_log s0 @
              [\<lparr>al_id = next_id (map al_id (audit_log s0)), al_ts = now e,
                al_event = ''CHECKIN_FAIL'',
                al_detail = take 1000 (''roll='' @ roll @ '', reason=bad_session_code'')\<rparr>])
       \<and> (resp = Redirect Kiosk (Some Unknown_roll_number) \<longrightarrow>
            audit_log s' = audit_log s0 @
              [\<lparr>al_id = next_id (map al_id (audit_log s0)), al_ts = now e,
                al_event = ''CHECKIN_FAIL'',
                al_detail = take 1000 (''roll='' @ roll @ '', reason=unknown_roll'')\<rparr>])
       \<and> (resp = Redirect Kiosk (Some Wrong_PIN) \<longrightarrow>
            audit_log s' = audit_log s0 @
              [\<lparr>al_id = next_id (map al_id (audit_log s0)), al_ts = now e,
                al_event = ''CHECKIN_FAIL'',
                al_detail = take 1000 (''roll='' @ roll @ '', reason=bad_pin'')\<rparr>])
       \<and> (resp = Redirect Kiosk (Some Already_checked_in) \<longrightarrow>
            audit_log s' = audit_log s0 @
              [\<lparr>al_id = next_id (map al_id (audit_log s0)), al_ts = now e,
                al_event = ''CHECKIN_DUP'',
                al_detail = take 1000 (''roll='' @ roll @ '' already checked today'')\<rparr>])
       \<and> (resp = Redirect Kiosk (Some Fill_all_fields) \<longrightarrow> audit_log s' = audit_log s0)
       \<and> (resp = Abort 429 \<longrightarrow> audit_log s' = audit_log s0)"
proof -
  obtain code where g: "get_or_create_session_code (\<lambda>x. x) e s = (Inr code, s0)"
    using get_or_create_sequential [of e s] s0 by auto
  show ?thesis
  proof (cases "rq_method rq")
    case GET
    with k g show ?thesis by (auto simp: kiosk_def)
  next
    case POST
    show ?thesis
    proof (cases "fst (bump_rate_limit e 20 ss)")
      case (Some st)
      then have "bump_rate_limit e 20 ss = (Some st, snd (bump_rate_limit e 20 ss))"
        by (metis prod.collapse)
      from kiosk_limited [OF POST this g] k show ?thesis by auto
    next
      case None
      then have "bump_rate_limit e 20 ss = (None, snd (bump_rate_limit e 20 ss))"
        by (metis prod.collapse)
      from kiosk_post [OF POST this g] k
      have r: "resp = fst (check_in sha256 e rq code s0)" "s' = snd (check_in sha256 e rq code s0)"
        by simp_all
      show ?thesis unfolding r roll
        by (simp add: check_in_def record_attendance_def insert_attendance_def log_def Let_def
            split_beta split: option.splits)
    qed
  qed
qed


text \<open>
  A check-in with an empty PIN is answered "Fill all fields." and the audit log is the
  one of before.
\<close>

theorem missing_field_not_audited:
  "fst (kiosk toy_sha256 ex_env (ex_post ''12'' [] ''a1b2c3'') new_session ex_open)
     = Redirect Kiosk (Some Fill_all_fields)
   \<and> audit_log (snd (snd (kiosk toy_sha256 ex_env (ex_post ''12'' [] ''a1b2c3'') new_session ex_open)))
     = audit_log ex_open"
  by (simp add: kiosk_def ex_post_fields get_or_create_session_code_def select_session_code_def
      ex_open_tables ex_env_fields ex_bump check_in_def strip_examples ex_upper strip_def Let_def)

text \<open>
  The six rejections at the example.
\<close>

theorem check_in_failures_audited_witness:
  "audit_log (snd (snd (kiosk toy_sha256 ex_env (ex_post ''12'' ''4321'' ''zzzzzz'') new_session ex_open)))
     = audit_log ex_open @
         [\<lparr>al_id = next_id (map al_id (audit_log ex_open)), al_ts = now ex_env,
           al_event = ''CHECKIN_FAIL'',
           al_detail = take 1000 (''roll='' @ ''12'' @ '', reason=bad_session_code'')\<rparr>]
   \<and> audit_log (snd (snd (kiosk toy_sha256 ex_env (ex_post ''99'' ''4321'' ''a1b2c3'') new_session ex_open)))
     = audit_log ex_open @
         [\<lparr>al_id = next_id (map al_id (audit_log ex_open)), al_ts = now ex_env,
           al_event = ''CHECKIN_FAIL'',
           al_detail = take 1000 (''roll='' @ ''99'' @ '', reason=unknown_roll'')\<rparr>]
   \<and> audit_log (snd (snd (kiosk toy_sha256 ex_env (ex_post ''12'' ''0000'' ''a1b2c3'') new_session ex_open)))
     = audit_log ex_open @
         [\<lparr>al_id = next_id (map al_id (audit_log ex_open)), al_ts = now ex_env,
           al_event = ''CHECKIN_FAIL'',
           al_detail = take 1000 (''roll='' @ ''12'' @ '', reason=bad_pin'')\<rparr>]
   \<and> audit_log (snd (snd (kiosk toy_sha256 ex_env (ex_post ''12'' ''4321'' ''a1b2c3'') new_session ex_checked)))
     = audit_log ex_checked @
         [\<lparr>al_id = next_id (map al_id (audit_log ex_checked)), al_ts = now ex_env,
           al_event = ''CHECKIN_DUP'',
           al_detail = take 1000 (''roll='' @ ''12'' @ '' already checked today'')\<rparr>]
   \<and> audit_log (snd (snd (kiosk toy_sha256 ex_env (ex_post ''12'' [] ''a1b2c3'') new_session ex_open)))
     = audit_log ex_open
   \<and> audit_log (snd (snd (kiosk toy_sha256 ex_env (ex_post ''12'' ''4321'' ''a1b2c3'') ex_tired_session ex_open)))
     = audit_log ex_open"
proof -
  have pair: "f = (fst f, fst (snd f), snd (snd f))" for f :: "response \<times> session \<times> state"
    by simp
  note inst = check_in_failures_audited [OF pair refl refl, of toy_sha256 ex_env]
  show ?thesis
    using inst [of "ex_post ''12'' ''4321'' ''zzzzzz''" new_session ex_open]
      inst [of "ex_post ''99'' ''4321'' ''a1b2c3''" new_session ex_open]
      inst [of "ex_post ''12'' ''0000'' ''a1b2c3''" new_session ex_open]
      inst [of "ex_post ''12'' ''4321'' ''a1b2c3''" new_session ex_checked]
      inst [of "ex_post ''12'' [] ''a1b2c3''" new_session ex_open]
      inst [of "ex_post ''12'' ''4321'' ''a1b2c3''" ex_tired_session ex_open]
    by (simp add: ex_responses ex_open_code ex_checked_code ex_post_fields strip_examples
        ex_strip_more)
qed

section \<open>Order of validation\<close>

lemma get_or_create_students:
  "get_or_create_session_code (\<lambda>x. x) e (s\<lparr>students := st\<rparr>)
     = (fst (get_or_create_session_code (\<lambda>x. x) e s),
        (snd (get_or_create_session_code (\<lambda>x. x) e s))\<lparr>students := st\<rparr>)"
  by (simp add: get_or_create_session_code_def select_session_code_def insert_day_session_def
      log_def Let_def split: option.splits)

lemma log_students: "log e ev d (s\<lparr>students := st\<rparr>) = (log e ev d s)\<lparr>students := st\<rparr>"
  by (simp add: log_def)

text \<open>
  C2. For a POST that the rate limiter lets through, with \<open>code\<close> the code of the day:
  a submitted code that differs from it, after trimming and upper-casing, is answered
  "Wrong session code" whatever the table of students holds and whatever the hash
  function computes, so neither the roster nor the PIN is consulted; the store changes
  by the one audit row. The steps run in the order missing field, session code, roll
  number, PIN, and only a request that passes all four reaches the snapshot and the
  insert.
\<close>

theorem kiosk_validation_order:
  assumes post: "rq_method rq = POST"
    and rate: "bump_rate_limit e 20 ss = (None, ss1)"
    and g: "get_or_create_session_code (\<lambda>x. x) e s = (Inr code, s0)"
    and roll: "roll = strip (form_get rq ''roll_no'')"
    and pin: "pin = strip (form_get rq ''pin'')"
    and sc: "session_code = upper (strip (form_get rq ''session_code''))"
  shows "(roll \<noteq> [] \<and> pin \<noteq> [] \<and> session_code \<noteq> [] \<and> session_code \<noteq> code \<longrightarrow>
           (\<forall>sha' st'. kiosk sha' e rq ss (s\<lparr>students := st'\<rparr>) =
              (Redirect Kiosk (Some Wrong_session_code), ss1,
               log e ''CHECKIN_FAIL'' (''roll='' @ roll @ '', reason=bad_session_code'')
                 (s0\<lparr>students := st'\<rparr>))))
       \<and> (roll = [] \<or> pin = [] \<or> session_code = [] \<longrightarrow>
           (\<forall>sha' st'. kiosk sha' e rq ss (s\<lparr>students := st'\<rparr>) =
              (Redirect Kiosk (Some Fill_all_fields), ss1, s0\<lparr>students := st'\<rparr>)))
       \<and> (roll \<noteq> [] \<and> pin \<noteq> [] \<and> session_code \<noteq> [] \<and> session_code = code
            \<and> select_student roll s = None \<longrightarrow>
           (\<forall>sha'. kiosk sha' e rq ss s =
              (Redirect Kiosk (Some Unknown_roll_number), ss1,
               log e ''CHECKIN_FAIL'' (''roll='' @ roll @ '', reason=unknown_roll'') s0)))
       \<and> (\<forall>stu. roll \<noteq> [] \<and> pin \<noteq> [] \<and> session_code \<noteq> [] \<and> session_code = code
            \<and> select_student roll s = Some stu
            \<and> hash_pw sha pin (s_salt stu) \<noteq> s_pin_hash stu \<longrightarrow>
           kiosk sha e rq ss s =
              (Redirect Kiosk (Some Wrong_PIN), ss1,
               log e ''CHECKIN_FAIL'' (''roll='' @ roll @ '', reason=bad_pin'') s0))
       \<and> (\<forall>stu. roll \<noteq> [] \<and> pin \<noteq> [] \<and> session_code \<noteq> [] \<and> session_code = code
            \<and> select_student roll s = Some stu
            \<and> hash_pw sha pin (s_salt stu) = s_pin_hash stu \<longrightarrow>
           kiosk sha e rq ss s =
              (fst (record_attendance e rq roll stu s0), ss1,
               snd (record_attendance e rq roll stu s0)))"
proof -
  have st: "students s0 = students s"
    using get_or_create_sequential [of e s] g by auto
  then have sel: "select_student r s0 = select_student r s" for r
    by (simp add: select_student_def)
  have g': "get_or_create_session_code (\<lambda>x. x) e (s\<lparr>students := st'\<rparr>)
            = (Inr code, s0\<lparr>students := st'\<rparr>)" for st'
    using g by (simp add: get_or_create_students)
  note k = kiosk_post [OF post rate g]
  note k' = kiosk_post [OF post rate g']
  show ?thesis
    unfolding roll pin sc
  proof (intro conjI impI allI)
    fix sha' st'
    assume "strip (form_get rq ''roll_no'') \<noteq> [] \<and> strip (form_get rq ''pin'') \<noteq> []
      \<and> upper (strip (form_get rq ''session_code'')) \<noteq> []
      \<and> upper (strip (form_get rq ''session_code'')) \<noteq> code"
    then show "kiosk sha' e rq ss (s\<lparr>students := st'\<rparr>) =
              (Redirect Kiosk (Some Wrong_session_code), ss1,
               log e ''CHECKIN_FAIL''
                 (''roll='' @ strip (form_get rq ''roll_no'') @ '', reason=bad_session_code'')
                 (s0\<lparr>students := st'\<rparr>))"
      using check_in_bad_code [of rq code sha' e "s0\<lparr>students := st'\<rparr>"] by (auto simp: k')
  next
    fix sha' st'
    assume "strip (form_get rq ''roll_no'') = [] \<or> strip (form_get rq ''pin'') = []
      \<or> upper (strip (form_get rq ''session_code'')) = []"
    then show "kiosk sha' e rq ss (s\<lparr>students := st'\<rparr>) =
              (Redirect Kiosk (Some Fill_all_fields), ss1, s0\<lparr>students := st'\<rparr>)"
      using check_in_missing [of rq sha' e code "s0\<lparr>students := st'\<rparr>"] by (auto simp: k')
  next
    fix sha'
    assume "strip (form_get rq ''roll_no'') \<noteq> [] \<and> strip (form_get rq ''pin'') \<noteq> []
      \<and> upper (strip (form_get rq ''session_code'')) \<noteq> []
      \<and> upper (strip (form_get rq ''session_code'')) = code
      \<and> select_student (strip (form_get rq ''roll_no'')) s = None"
    then show "kiosk sha' e rq ss s =
              (Redirect Kiosk (Some Unknown_roll_number), ss1,
               log e ''CHECKIN_FAIL''
                 (''roll='' @ strip (form_get rq ''roll_no'') @ '', reason=unknown_roll'') s0)"
      using check_in_unknown [of rq code s0 sha' e] by (auto simp: k sel)
  next
    fix stu
    assume "strip (form_get rq ''roll_no'') \<noteq> [] \<and> strip (form_get rq ''pin'') \<noteq> []
      \<and> upper (strip (form_get rq ''session_code'')) \<noteq> []
      \<and> upper (strip (form_get rq ''session_code'')) = code
      \<and> select_student (strip (form_get rq ''roll_no'')) s = Some stu
      \<and> hash_pw sha (strip (form_get rq ''pin'')) (s_salt stu) \<noteq> s_pin_hash stu"
    then show "kiosk sha e rq ss s =
              (Redirect Kiosk (Some Wrong_PIN), ss1,
               log e ''CHECKIN_FAIL''
                 (''roll='' @ strip (form_get rq ''roll_no'') @ '', reason=bad_pin'') s0)"
      using check_in_bad_pin [of rq code s0 stu sha e] by (auto simp: k sel)
  next
    fix stu
    assume "strip (form_get rq ''roll_no'') \<noteq> [] \<and> strip (form_get rq ''pin'') \<noteq> []
      \<and> upper (strip (form_get rq ''session_code'')) \<noteq> []
      \<and> upper (strip (form_get rq ''session_code'')) = code
      \<and> select_student (strip (form_get rq ''roll_no'')) s = Some stu
      \<and> hash_pw sha (strip (form_get rq ''pin'')) (s_salt stu) = s_pin_hash stu"
    then show "kiosk sha e rq ss s =
              (fst (record_attendance e rq (strip (form_get rq ''roll_no'')) stu s0), ss1,
               snd (record_attendance e rq (strip (form_get rq ''roll_no'')) stu s0))"
      using check_in_passed [of rq code s0 stu sha e] by (auto simp: k sel)
  qed
qed

lemma ex_students_self: "ex_open\<lparr>students := students ex_open\<rparr> = ex_open"
  by simp

lemma ex_select:
  "select_student ''12'' ex_open = Some \<lparr>s_id = 1, s_roll_no = ''12'', s_full_name = ''Asha Rai'',
       s_class_name = ''10'', s_section = ''A'',
       s_pin_hash = hash_pw toy_sha256 ''4321'' (token_hex ex_env 16),
       s_salt = token_hex ex_env 16, s_created_at = ''2025-03-10 08:15:00''\<rparr>"
  "select_student ''99'' ex_open = None"
  by (simp_all add: select_student_def ex_open_tables ex_roster_tables)

text \<open>
  The five outcomes at the example: a wrong code with the right roll number and PIN,
  an empty PIN, an unknown roll number, a wrong PIN, and a request that passes.
\<close>

theorem kiosk_validation_order_witness:
  "kiosk toy_sha256 ex_env (ex_post ''12'' ''4321'' ''zzzzzz'') new_session ex_open =
     (Redirect Kiosk (Some Wrong_session_code),
      \<lparr>sess_admin = False, sess_rl = Some \<lparr>rl_count = 1, rl_ts = now ex_env\<rparr>\<rparr>,
      log ex_env ''CHECKIN_FAIL'' (''roll='' @ ''12'' @ '', reason=bad_session_code'') ex_open)
   \<and> kiosk toy_sha256 ex_env (ex_post ''12'' [] ''a1b2c3'') new_session ex_open =
     (Redirect Kiosk (Some Fill_all_fields),
      \<lparr>sess_admin = False, sess_rl = Some \<lparr>rl_count = 1, rl_ts = now ex_env\<rparr>\<rparr>, ex_open)
   \<and> kiosk toy_sha256 ex_env (ex_post ''99'' ''4321'' ''a1b2c3'') new_session ex_open =
     (Redirect Kiosk (Some Unknown_roll_number),
      \<lparr>sess_admin = False, sess_rl = Some \<lparr>rl_count = 1, rl_ts = now ex_env\<rparr>\<rparr>,
      log ex_env ''CHECKIN_FAIL'' (''roll='' @ ''99'' @ '', reason=unknown_roll'') ex_open)
   \<and> kiosk toy_sha256 ex_env (ex_post ''12'' ''0000'' ''a1b2c3'') new_session ex_open =
     (Redirect Kiosk (Some Wrong_PIN),
      \<lparr>sess_admin = False, sess_rl = Some \<lparr>rl_count = 1, rl_ts = now ex_env\<rparr>\<rparr>,
      log ex_env ''CHECKIN_FAIL'' (''roll='' @ ''12'' @ '', reason=bad_pin'') ex_open)
   \<and> fst (kiosk toy_sha256 ex_env (ex_post ''12'' ''4321'' ''a1b2c3'') new_session ex_open) =
       Checked_in_page ''Asha Rai'' ''12'' ''2025-03-10'' ''2025-03-10 08:15:00''"
proof -
  note inst = kiosk_validation_order [where sha = toy_sha256 and e = ex_env
      and ss = new_session and s = ex_open, OF ex_post_fields(1) ex_bump ex_open_code refl refl refl]
  have a: "(s_id stu, today ex_env) \<notin> set (map (\<lambda>a. (a_student_id a, a_day a)) (attendance ex_open))"
    for stu :: student by (simp add: ex_open_tables)
  show ?thesis
    using inst [of "''12''" "''4321''" "''zzzzzz''"]
      inst [of "''12''" "[]" "''a1b2c3''"]
      inst [of "''99''" "''4321''" "''a1b2c3''"]
      inst [of "''12''" "''0000''" "''a1b2c3''"]
      inst [of "''12''" "''4321''" "''a1b2c3''"]
    apply (simp add: ex_post_fields strip_examples ex_strip_more ex_upper ex_select hash_pw_toy_eq
        record_attendance_new [OF a] ex_env_fields)
    apply (intro conjI)
     apply (metis ex_students_self)
    apply (metis ex_students_self)
    done
qed

section \<open>One record per student and day\<close>

lemma filter_unique_le1:
  "distinct (map f xs) \<Longrightarrow> length (filter (\<lambda>x. f x = k) xs) \<le> 1"
  by (induction xs) (auto simp: filter_empty_conv image_iff)

lemma capture_snapshot_frame:
  assumes "opencv_ok e" "cam_opened e" "cam_frame e = Some fr"
  shows "capture_snapshot e roll s =
     (Some (today e @ ''_'' @ roll @ ''_'' @ snap_ts e @ ''.jpg''),
      s\<lparr>snap_dir := (snap_dir s)(today e @ ''_'' @ roll @ ''_'' @ snap_ts e @ ''.jpg'' \<mapsto> fr)\<rparr>)"
  using assms by (simp add: capture_snapshot_def Let_def)

lemma kiosk_keeps_existing_record:
  assumes k: "kiosk sha e rq ss s = (resp, ss', s')"
    and sel: "select_student (strip (form_get rq ''roll_no'')) s = Some stu"
    and rec: "(s_id stu, today e) \<in> set (map (\<lambda>a. (a_student_id a, a_day a)) (attendance s))"
  shows "attendance s' = attendance s"
proof -
  obtain code s0 where g: "get_or_create_session_code (\<lambda>x. x) e s = (Inr code, s0)"
    and fr: "students s0 = students s" "attendance s0 = attendance s"
    using get_or_create_sequential [of e s] by auto
  have sel0: "select_student (strip (form_get rq ''roll_no'')) s0 = Some stu"
    using sel fr by (simp add: select_student_def)
  have rec0: "(s_id stu, today e) \<in> set (map (\<lambda>a. (a_student_id a, a_day a)) (attendance s0))"
    using rec fr by simp
  have "attendance (snd (check_in sha e rq code s0)) = attendance s0"
    by (simp add: check_in_def Let_def sel0 record_attendance_dup [OF rec0])
  moreover have "s' = s0 \<or> s' = snd (check_in sha e rq code s0)"
    using k g by (auto simp: kiosk_def split_beta split: if_splits option.splits prod.splits)
  ultimately show ?thesis using fr by auto
qed

text \<open>
  C1. In every store the application can reach, a student and a day have at most one
  attendance row: the insert checks \<^verbatim>\<open>UNIQUE(student_id, day)\<close>. A request to the
  kiosk for a student who has a row for the day leaves the table as it is, whatever
  the request; and when the request is a check-in that passes the rate limiter and
  the four validation steps, so that the insert is attempted, the
  \<^verbatim>\<open>IntegrityError\<close> is caught and the answer is "Already checked in today."
\<close>

theorem attendance_at_most_once:
  assumes reach: "reachable sha s"
  shows "(\<forall>sid d. length (filter (\<lambda>a. (a_student_id a, a_day a) = (sid, d)) (attendance s)) \<le> 1)
       \<and> (\<forall>e rq ss stu.
            select_student (strip (form_get rq ''roll_no'')) s = Some stu
            \<and> (s_id stu, today e) \<in> set (map (\<lambda>a. (a_student_id a, a_day a)) (attendance s))
            \<longrightarrow> attendance (snd (snd (kiosk sha e rq ss s))) = attendance s
              \<and> (rq_method rq = POST \<and> fst (bump_rate_limit e 20 ss) = None
                   \<and> strip (form_get rq ''roll_no'') \<noteq> [] \<and> strip (form_get rq ''pin'') \<noteq> []
                   \<and> upper (strip (form_get rq ''session_code'')) \<noteq> []
                   \<and> fst (get_or_create_session_code (\<lambda>x. x) e s)
                        = Inr (upper (strip (form_get rq ''session_code'')))
                   \<and> hash_pw sha (strip (form_get rq ''pin'')) (s_salt stu) = s_pin_hash stu
                  \<longrightarrow> fst (kiosk sha e rq ss s) = Redirect Kiosk (Some Already_checked_in)))"
proof (intro conjI allI impI)
  fix sid d
  from reachable_invariants [OF reach] have "attendance_unique s" by simp
  then show "length (filter (\<lambda>a. (a_student_id a, a_day a) = (sid, d)) (attendance s)) \<le> 1"
    unfolding attendance_unique_def by (rule filter_unique_le1)
next
  fix e :: env and rq :: request and ss :: session and stu :: student
  assume a: "select_student (strip (form_get rq ''roll_no'')) s = Some stu
            \<and> (s_id stu, today e) \<in> set (map (\<lambda>a. (a_student_id a, a_day a)) (attendance s))"
  have pair: "kiosk sha e rq ss s
      = (fst (kiosk sha e rq ss s), fst (snd (kiosk sha e rq ss s)), snd (snd (kiosk sha e rq ss s)))"
    by simp
  from kiosk_keeps_existing_record [OF pair] a
  show "attendance (snd (snd (kiosk sha e rq ss s))) = attendance s" by blast
next
  fix e :: env and rq :: request and ss :: session and stu :: student
  assume a: "select_student (strip (form_get rq ''roll_no'')) s = Some stu
            \<and> (s_id stu, today e) \<in> set (map (\<lambda>a. (a_student_id a, a_day a)) (attendance s))"
  assume v: "rq_method rq = POST \<and> fst (bump_rate_limit e 20 ss) = None
                   \<and> strip (form_get rq ''roll_no'') \<noteq> [] \<and> strip (form_get rq ''pin'') \<noteq> []
                   \<and> upper (strip (form_get rq ''session_code'')) \<noteq> []
                   \<and> fst (get_or_create_session_code (\<lambda>x. x) e s)
                        = Inr (upper (strip (form_get rq ''session_code'')))
                   \<and> hash_pw sha (strip (form_get rq ''pin'')) (s_salt stu) = s_pin_hash stu"
  define code where "code = upper (strip (form_get rq ''session_code''))"
  define s0 where "s0 = snd (get_or_create_session_code (\<lambda>x. x) e s)"
  have g: "get_or_create_session_code (\<lambda>x. x) e s = (Inr code, s0)"
    using v by (simp add: code_def s0_def prod_eq_iff)
  have fr: "students s0 = students s" "attendance s0 = attendance s"
    using get_or_create_sequential [of e s] g by auto
  have rate: "bump_rate_limit e 20 ss = (None, snd (bump_rate_limit e 20 ss))"
    using v by (simp add: prod_eq_iff)
  have sel0: "select_student (strip (form_get rq ''roll_no'')) s0 = Some stu"
    using a fr by (simp add: select_student_def)
  have rec0: "(s_id stu, today e) \<in> set (map (\<lambda>a. (a_student_id a, a_day a)) (attendance s0))"
    using a fr by simp
  have "check_in sha e rq code s0 = record_attendance e rq (strip (form_get rq ''roll_no'')) stu s0"
    using v sel0 by (intro check_in_passed) (simp_all add: code_def)
  then have "fst (check_in sha e rq code s0) = Redirect Kiosk (Some Already_checked_in)"
    by (simp add: record_attendance_dup [OF rec0])
  with v kiosk_post [OF _ rate g, of rq sha]
  show "fst (kiosk sha e rq ss s) = Redirect Kiosk (Some Already_checked_in)" by simp
qed

lemma ex_reachable:
  "reachable toy_sha256 ex_init" "reachable toy_sha256 ex_roster"
  "reachable toy_sha256 ex_open" "reachable toy_sha256 ex_checked"
proof -
  have step: "reachable toy_sha256 s \<Longrightarrow> reachable toy_sha256 (snd (snd (handle toy_sha256 e rq ss s)))"
    for s e rq ss
  proof -
    assume r: "reachable toy_sha256 s"
    have "handle toy_sha256 e rq ss s
      = (fst (handle toy_sha256 e rq ss s), fst (snd (handle toy_sha256 e rq ss s)),
         snd (snd (handle toy_sha256 e rq ss s)))" by simp
    from reachable_step [OF r this] show ?thesis .
  qed
  show i: "reachable toy_sha256 ex_init" unfolding ex_init_def by (rule reachable_init)
  show r: "reachable toy_sha256 ex_roster" unfolding ex_roster_def by (intro step i)
  show p: "reachable toy_sha256 ex_open" unfolding ex_open_def by (intro step r)
  show "reachable toy_sha256 ex_checked" unfolding ex_checked_def by (intro step p)
qed

lemma ex_select_checked:
  "select_student ''12'' ex_checked = Some \<lparr>s_id = 1, s_roll_no = ''12'', s_full_name = ''Asha Rai'',
       s_class_name = ''10'', s_section = ''A'',
       s_pin_hash = hash_pw toy_sha256 ''4321'' (token_hex ex_env 16),
       s_salt = token_hex ex_env 16, s_created_at = ''2025-03-10 08:15:00''\<rparr>"
  by (simp add: select_student_def ex_checked_tables ex_roster_tables)

text \<open>
  Student 12 checks in a second time on the same morning.
\<close>

theorem attendance_at_most_once_witness:
  "reachable toy_sha256 ex_checked
   \<and> length (filter (\<lambda>a. (a_student_id a, a_day a) = (1, ''2025-03-10'')) (attendance ex_checked)) \<le> 1
   \<and> attendance (snd (snd (kiosk toy_sha256 ex_env (ex_post ''12'' ''4321'' ''a1b2c3'') new_session
        ex_checked))) = attendance ex_checked
   \<and> fst (kiosk toy_sha256 ex_env (ex_post ''12'' ''4321'' ''a1b2c3'') new_session ex_checked)
       = Redirect Kiosk (Some Already_checked_in)"
proof -
  note t = attendance_at_most_once [OF ex_reachable(4)]
  from t have one: "length (filter (\<lambda>a. (a_student_id a, a_day a) = (1, ''2025-03-10''))
      (attendance ex_checked)) \<le> 1" by blast
  from t have "select_student (strip (form_get (ex_post ''12'' ''4321'' ''a1b2c3'') ''roll_no'')) ex_checked
       = Some stu
     \<and> (s_id stu, today ex_env) \<in> set (map (\<lambda>a. (a_student_id a, a_day a)) (attendance ex_checked))
     \<longrightarrow> attendance (snd (snd (kiosk toy_sha256 ex_env (ex_post ''12'' ''4321'' ''a1b2c3'') new_session
            ex_checked))) = attendance ex_checked
       \<and> (rq_method (ex_post ''12'' ''4321'' ''a1b2c3'') = POST
            \<and> fst (bump_rate_limit ex_env 20 new_session) = None
            \<and> strip (form_get (ex_post ''12'' ''4321'' ''a1b2c3'') ''roll_no'') \<noteq> []
            \<and> strip (form_get (ex_post ''12'' ''4321'' ''a1b2c3'') ''pin'') \<noteq> []
            \<and> upper (strip (form_get (ex_post ''12'' ''4321'' ''a1b2c3'') ''session_code'')) \<noteq> []
            \<and> fst (get_or_create_session_code (\<lambda>x. x) ex_env ex_checked)
                 = Inr (upper (strip (form_get (ex_post ''12'' ''4321'' ''a1b2c3'') ''session_code'')))
            \<and> hash_pw toy_sha256 (strip (form_get (ex_post ''12'' ''4321'' ''a1b2c3'') ''pin''))
                 (s_salt stu) = s_pin_hash stu
           \<longrightarrow> fst (kiosk toy_sha256 ex_env (ex_post ''12'' ''4321'' ''a1b2c3'') new_session ex_checked)
                 = Redirect Kiosk (Some Already_checked_in))" for stu
    by blast
  from this [of "\<lparr>s_id = 1, s_roll_no = ''12'', s_full_name = ''Asha Rai'',
       s_class_name = ''10'', s_section = ''A'',
       s_pin_hash = hash_pw toy_sha256 ''4321'' (token_hex ex_env 16),
       s_salt = token_hex ex_env 16, s_created_at = ''2025-03-10 08:15:00''\<rparr>"]
  have "attendance (snd (snd (kiosk toy_sha256 ex_env (ex_post ''12'' ''4321'' ''a1b2c3'') new_session
        ex_checked))) = attendance ex_checked
   \<and> fst (kiosk toy_sha256 ex_env (ex_post ''12'' ''4321'' ''a1b2c3'') new_session ex_checked)
       = Redirect Kiosk (Some Already_checked_in)"
    by (simp add: ex_post_fields strip_examples ex_upper ex_select_checked ex_checked_tables
        ex_env_fields ex_bump ex_checked_code)
  with one ex_reachable(4) show ?thesis by simp
qed

section \<open>Case of the session code\<close>




section \<open>Snapshot of a duplicate check-in\<close>

text \<open>
  C10. The snapshot is taken before the insert. When a check-in that passes the
  validation is rejected as a duplicate and the camera delivered a frame, the answer
  is "Already checked in today.", the attendance table is unchanged, and yet the frame
  has been written to the snapshot directory under the file name of this attempt.
\<close>

theorem duplicate_keeps_snapshot:
  assumes post: "rq_method rq = POST"
    and rate: "fst (bump_rate_limit e 20 ss) = None"
    and code: "fst (get_or_create_session_code (\<lambda>x. x) e s)
                 = Inr (upper (strip (form_get rq ''session_code'')))"
    and ne: "upper (strip (form_get rq ''session_code'')) \<noteq> []"
    and roll: "roll = strip (form_get rq ''roll_no'')" "roll \<noteq> []"
    and pin: "strip (form_get rq ''pin'') \<noteq> []"
    and sel: "select_student roll s = Some stu"
    and hash: "hash_pw sha (strip (form_get rq ''pin'')) (s_salt stu) = s_pin_hash stu"
    and rec: "(s_id stu, today e) \<in> set (map (\<lambda>a. (a_student_id a, a_day a)) (attendance s))"
    and cam: "opencv_ok e" "cam_opened e" "cam_frame e = Some fr"
  shows "fst (kiosk sha e rq ss s) = Redirect Kiosk (Some Already_checked_in)
       \<and> attendance (snd (snd (kiosk sha e rq ss s))) = attendance s
       \<and> snap_dir (snd (snd (kiosk sha e rq ss s)))
           = (snap_dir s)(today e @ ''_'' @ roll @ ''_'' @ snap_ts e @ ''.jpg'' \<mapsto> fr)"
proof -
  define c where "c = upper (strip (form_get rq ''session_code''))"
  define s0 where "s0 = snd (get_or_create_session_code (\<lambda>x. x) e s)"
  have g: "get_or_create_session_code (\<lambda>x. x) e s = (Inr c, s0)"
    using code by (simp add: c_def s0_def prod_eq_iff)
  have fr: "students s0 = students s" "attendance s0 = attendance s" "snap_dir s0 = snap_dir s"
    using get_or_create_sequential [of e s] g by auto
  have rate': "bump_rate_limit e 20 ss = (None, snd (bump_rate_limit e 20 ss))"
    using rate by (simp add: prod_eq_iff)
  have sel0: "select_student (strip (form_get rq ''roll_no'')) s0 = Some stu"
    using sel fr roll by (simp add: select_student_def)
  have rec0: "(s_id stu, today e) \<in> set (map (\<lambda>a. (a_student_id a, a_day a)) (attendance s0))"
    using rec fr by simp
  have "check_in sha e rq c s0 = record_attendance e rq roll stu s0"
    unfolding roll(1) using roll pin ne sel0 hash by (intro check_in_passed) (simp_all add: c_def)
  then have "check_in sha e rq c s0 =
     (Redirect Kiosk (Some Already_checked_in),
      log e ''CHECKIN_DUP'' (''roll='' @ roll @ '' already checked today'')
        (s0\<lparr>snap_dir := (snap_dir s0)(today e @ ''_'' @ roll @ ''_'' @ snap_ts e @ ''.jpg'' \<mapsto> fr)\<rparr>))"
    by (simp add: record_attendance_dup [OF rec0] capture_snapshot_frame [OF cam])
  then show ?thesis
    by (simp add: kiosk_post [OF post rate' g, of sha] fr)
qed

text \<open>
  The second check-in of student 12 leaves a snapshot file behind.
\<close>

theorem duplicate_keeps_snapshot_witness:
  "fst (kiosk toy_sha256 ex_env (ex_post ''12'' ''4321'' ''a1b2c3'') new_session ex_checked)
     = Redirect Kiosk (Some Already_checked_in)
   \<and> attendance (snd (snd (kiosk toy_sha256 ex_env (ex_post ''12'' ''4321'' ''a1b2c3'') new_session
        ex_checked))) = attendance ex_checked
   \<and> snap_dir (snd (snd (kiosk toy_sha256 ex_env (ex_post ''12'' ''4321'' ''a1b2c3'') new_session
        ex_checked)))
       = (snap_dir ex_checked)(today ex_env @ ''_'' @ ''12'' @ ''_'' @ snap_ts ex_env @ ''.jpg''
            \<mapsto> [0xFF, 0xD8])"
proof -
  have rate: "fst (bump_rate_limit ex_env 20 new_session) = None" by (simp add: ex_bump)
  have code: "fst (get_or_create_session_code (\<lambda>x. x) ex_env ex_checked)
      = Inr (upper (strip (form_get (ex_post ''12'' ''4321'' ''a1b2c3'') ''session_code'')))"
    by (simp add: ex_checked_code ex_post_fields strip_examples ex_upper)
  have ne: "upper (strip (form_get (ex_post ''12'' ''4321'' ''a1b2c3'') ''session_code'')) \<noteq> []"
    by (simp add: ex_post_fields strip_examples ex_upper)
  have roll: "''12'' = strip (form_get (ex_post ''12'' ''4321'' ''a1b2c3'') ''roll_no'')"
    "''12'' \<noteq> []" by (simp_all add: ex_post_fields strip_examples)
  have pin: "strip (form_get (ex_post ''12'' ''4321'' ''a1b2c3'') ''pin'') \<noteq> []"
    by (simp add: ex_post_fields strip_examples)
  have hash: "hash_pw toy_sha256 (strip (form_get (ex_post ''12'' ''4321'' ''a1b2c3'') ''pin''))
      (s_salt \<lparr>s_id = 1, s_roll_no = ''12'', s_full_name = ''Asha Rai'',
       s_class_name = ''10'', s_section = ''A'',
       s_pin_hash = hash_pw toy_sha256 ''4321'' (token_hex ex_env 16),
       s_salt = token_hex ex_env 16, s_created_at = ''2025-03-10 08:15:00''\<rparr>)
     = s_pin_hash \<lparr>s_id = 1, s_roll_no = ''12'', s_full_name = ''Asha Rai'',
       s_class_name = ''10'', s_section = ''A'',
       s_pin_hash = hash_pw toy_sha256 ''4321'' (token_hex ex_env 16),
       s_salt = token_hex ex_env 16, s_created_at = ''2025-03-10 08:15:00''\<rparr>"
    by (simp add: ex_post_fields strip_examples)
  have rec: "(s_id \<lparr>s_id = 1, s_roll_no = ''12'', s_full_name = ''Asha Rai'',
       s_class_name = ''10'', s_section = ''A'',
       s_pin_hash = hash_pw toy_sha256 ''4321'' (token_hex ex_env 16),
       s_salt = token_hex ex_env 16, s_created_at = ''2025-03-10 08:15:00''\<rparr>, today ex_env)
     \<in> set (map (\<lambda>a. (a_student_id a, a_day a)) (attendance ex_checked))"
    by (simp add: ex_checked_tables ex_env_fields)
  show ?thesis
    by (rule duplicate_keeps_snapshot [OF ex_post_fields(1) rate code ne roll pin ex_select_checked
          hash rec ex_env_fields(4,5,6)])
qed

section \<open>Rate limiter at the kiosk\<close>











section \<open>Daily report\<close>








lemma cast_int_digits:
  assumes "r \<noteq> []" "list_all is_digit r" "digits_val r < 2 ^ 63"
  shows "cast_int r = digits_val r"
proof -
  obtain c w where r: "r = c # w" using assms(1) by (cases r) auto
  with assms(2) have c: "is_digit c" by simp
  then have ns: "\<not> is_sql_space c" by (auto simp: is_digit_def is_sql_space_def Let_def)
  from c have sg: "c \<noteq> CHR ''-''" "c \<noteq> CHR ''+''" by (auto simp: is_digit_def)
  have tw: "takeWhile is_digit r = r" using assms(2) by (simp add: list_all_iff)
  have "cast_int r = min (2 ^ 63 - 1) (digits_val r)"
    using ns sg tw by (simp add: cast_int_def r Let_def)
  with assms(3) show ?thesis by simp
qed

lemma cast_int_no_number:
  assumes "r = [] \<or> \<not> is_sql_space (hd r) \<and> \<not> is_digit (hd r) \<and> hd r \<noteq> CHR ''-'' \<and> hd r \<noteq> CHR ''+''"
  shows "cast_int r = 0"
  using assms by (cases r) (auto simp: cast_int_def Let_def digits_val_def)


lemma ex_report_day:
  "''2025-03-10'' = strip (case args ex_report ''day'' of None \<Rightarrow> today ex_env | Some v \<Rightarrow> v)"
  by (simp add: ex_report_def strip_examples)

lemma ex_cast: "cast_int ''7'' = 7" "cast_int ''12'' = 12"
  by (simp_all add: cast_int_def is_sql_space_def is_digit_def digits_val_def Let_def)

lemma ex_report_page:
  "admin_reports ex_env ex_report ex_admin_session ex_checked =
     (Reports_page ''2025-03-10'' 1 1
        [\<lparr>r_roll_no = ''7'', r_full_name = ''Binod Karki'', r_class_name = ''10'',
          r_section = ''A'', r_status = ''A'', r_checked_in_at = None, r_snapshot_path = None\<rparr>,
         \<lparr>r_roll_no = ''12'', r_full_name = ''Asha Rai'', r_class_name = ''10'',
          r_section = ''A'', r_status = ''P'', r_checked_in_at = Some ''2025-03-10 08:15:00'',
          r_snapshot_path = Some ''2025-03-10_12_20250310_081500.jpg''\<rparr>],
      ex_admin_session, ex_checked)"
  by (simp add: admin_reports_def ex_admin_session_def ex_report_day [symmetric] report_query_def
      left_join_def ex_checked_tables ex_roster_tables joined_row_def order_key_def ex_cast
      count_rows_def Let_def less_eq_prod_def)


section \<open>First visit of the day under a race\<close>

text \<open>
  What holds of every call: a code that is returned is stored for the day, the days of
  the table stay distinct, and a new code is six upper-case hexadecimal characters.
\<close>

lemma get_or_create_persisted:
  assumes "get_or_create_session_code other e s = (Inr code, s')"
  shows "\<exists>r\<in>set (day_session s'). ds_day r = today e \<and> ds_session_code r = code"
proof (cases "select_session_code (today e) s")
  case None
  with assms show ?thesis
    by (auto simp: get_or_create_session_code_def insert_day_session_def Let_def
        split: if_splits)
next
  case (Some c)
  then obtain r where "find (\<lambda>r. ds_day r = today e) (day_session s) = Some r" "ds_session_code r = c"
    by (auto simp: select_session_code_def)
  with find_Some_in [of "\<lambda>r. ds_day r = today e" "day_session s" r] Some assms
  show ?thesis by (auto simp: get_or_create_session_code_def)
qed

lemma get_or_create_day_unique:
  assumes "day_unique s" "day_unique (other s)"
  shows "day_unique (snd (get_or_create_session_code other e s))"
  using assms
  by (auto simp: get_or_create_session_code_def insert_day_session_def day_unique_def Let_def
      split: option.splits)

lemma upper_hex_digit: "n < 16 \<Longrightarrow> upper_char (hex_digit n) \<in> set ''0123456789ABCDEF''"
proof -
  assume n: "n < 16"
  have "list_all (\<lambda>n. upper_char (hex_digit n) \<in> set ''0123456789ABCDEF'') [0..<16]"
    by (simp add: upt_rec hex_digit_def upper_char_def)
  with n show ?thesis by (simp add: list_all_iff)
qed

lemma new_code_format:
  "length (upper (token_hex e 3)) = 6"
  "set (upper (token_hex e 3)) \<subseteq> set ''0123456789ABCDEF''"
proof -
  show "length (upper (token_hex e 3)) = 6"
    by (simp add: upper_def token_hex_def hex_length)
  have b: "unat (b :: byte) div 16 < 16" "unat b mod 16 < 16" for b
  proof -
    have "unat b < 256" using unsigned_less [of b, where 'a = nat] by simp
    then show "unat b div 16 < 16" by simp
    show "unat b mod 16 < 16" by simp
  qed
  have "set (upper (hex bs)) \<subseteq> set ''0123456789ABCDEF''" for bs
  proof (induction bs)
    case Nil
    show ?case by (simp add: upper_def hex_def)
  next
    case (Cons a bs)
    have "upper (hex (a # bs)) = upper (hex_byte a) @ upper (hex bs)"
      by (simp add: upper_def hex_def)
    moreover have "set (upper (hex_byte a)) \<subseteq> set ''0123456789ABCDEF''"
      using upper_hex_digit [OF b(1), of a] upper_hex_digit [OF b(2), of a]
      by (simp add: upper_def hex_byte_def)
    ultimately show ?case using Cons by simp
  qed
  then show "set (upper (token_hex e 3)) \<subseteq> set ''0123456789ABCDEF''"
    by (simp add: token_hex_def)
qed

text \<open>
  C7. Two first visits of the day race: between the SELECT of this call, which finds
  no row, and its INSERT, another call creates the row of the day with the code
  0F0F0F. The insert of this call violates the primary key; nothing catches the
  \<^verbatim>\<open>IntegrityError\<close>, so the call ends with the exception and returns no code. The
  table holds the one row of the other call.
\<close>

theorem session_code_race:
  "get_or_create_session_code
     (\<lambda>s. snd (get_or_create_session_code (\<lambda>x. x) (ex_env\<lparr>rnd := \<lambda>i. 0x0F\<rparr>) s))
     ex_env ex_roster
   = (Inl IntegrityError,
      snd (get_or_create_session_code (\<lambda>x. x) (ex_env\<lparr>rnd := \<lambda>i. 0x0F\<rparr>) ex_roster))
   \<and> map ds_session_code (day_session
        (snd (get_or_create_session_code (\<lambda>x. x) (ex_env\<lparr>rnd := \<lambda>i. 0x0F\<rparr>) ex_roster)))
     = [''0F0F0F'']"
proof -
  have t: "upper (token_hex (ex_env\<lparr>rnd := \<lambda>i. 0x0F\<rparr>) 3) = ''0F0F0F''"
    by (simp add: token_hex_def upt_rec hex_def hex_byte_def hex_digit_def upper_def upper_char_def)
  have d: "today (ex_env\<lparr>rnd := \<lambda>i. 0x0F\<rparr>) = ''2025-03-10''" by (simp add: ex_env_def)
  show ?thesis
    by (simp add: get_or_create_session_code_def select_session_code_def insert_day_session_def
        ex_roster_tables ex_env_fields d t ex_code Let_def)
qed

end
